theory Spec2Isabelle
  imports Main "HOL-Library.Word"
begin

unbundle bit_operations_syntax

section \<open>Buffers, strings and the platform\<close>

text \<open>
  A Node \<open>Buffer\<close> is a list of bytes. A JavaScript string is modelled as a \<open>string\<close>, one
  \<open>char\<close> per code unit (code units above 255 are outside the model). The functions of the
  Node platform that the repository calls but does not define (UTF-8 decoding of a buffer,
  Unicode normalisation, base64 decoding, SHA-256, HMAC-SHA-256, PBKDF2, MD5, random bytes)
  are the fields of a
  record that every operation using them takes as its first argument.
\<close>

type_synonym byte = "8 word"
type_synonym buffer = "byte list"

text \<open>
  A JavaScript number that holds the result of \<open>parseInt\<close>: \<open>NaN\<close>, an integer that a
  double represents exactly, or a value above \<open>2 ^ 53\<close> in magnitude, which the platform
  rounds and whose value the model does not track.
\<close>

datatype jsnum = NaN | Num int | Huge

record platform =
  toStringUtf8 :: "buffer \<Rightarrow> string"
  normalizeNFKC :: "string \<Rightarrow> string"
  base64Decode :: "string \<Rightarrow> buffer"
  sha256 :: "buffer \<Rightarrow> buffer"
  hmacSha256 :: "buffer \<Rightarrow> string \<Rightarrow> buffer"
  pbkdf2Sha256 :: "string \<Rightarrow> buffer \<Rightarrow> jsnum \<Rightarrow> nat \<Rightarrow> buffer option"
  md5Hex :: "string \<Rightarrow> string"
  randomBytes :: "nat \<Rightarrow> buffer"

text \<open>
  \<open>hmacSha256 key data\<close> is \<open>crypto.createHmac("sha256", key).update(data).digest()\<close> with a
  string \<open>data\<close>; \<open>pbkdf2Sha256 password salt iterations keylen\<close> is \<open>crypto.pbkdf2Sync\<close>
  with digest \<open>"sha256"\<close>, \<open>None\<close> when the platform throws (it rejects an iteration count
  that is not a positive 32-bit integer). \<open>md5Hex s\<close> is
  \<open>crypto.createHash("md5").update(s).digest("hex")\<close>, and \<open>randomBytes n\<close> is the buffer that
  the \<open>n\<close>-th call of \<open>crypto.randomBytes(18)\<close> returns.
\<close>

subsection \<open>String primitives\<close>

text \<open>\<open>str.split(sep)\<close> for a separator of one character.\<close>

fun split_on :: "char \<Rightarrow> string \<Rightarrow> string list" where
  "split_on c [] = [Nil]"
| "split_on c (x # xs) =
     (if x = c then [] # split_on c xs
      else (case split_on c xs of
              [] \<Rightarrow> [x] # Nil
            | t # ts \<Rightarrow> (x # t) # ts))"

text \<open>
  \<open>str.split(sep, limit)\<close>: the string is split at every separator and the array is then
  cut to its first \<open>limit\<close> elements.
\<close>

definition split_limit :: "char \<Rightarrow> nat \<Rightarrow> string \<Rightarrow> string list" where
  "split_limit c limit s = take limit (split_on c s)"

definition startsWith :: "string \<Rightarrow> string \<Rightarrow> bool" where
  "startsWith s p = (take (length p) s = p)"

text \<open>\<open>String(x)\<close> of a value that is a string or \<open>null\<close>.\<close>

definition toStringOrNull :: "string option \<Rightarrow> string" where
  "toStringOrNull x = (case x of None \<Rightarrow> ''null'' | Some s \<Rightarrow> s)"

text \<open>An element of an array under \<open>join\<close>: \<open>null\<close> is the empty string.\<close>

definition joinElem :: "string option \<Rightarrow> string" where
  "joinElem x = (case x of None \<Rightarrow> [] | Some s \<Rightarrow> s)"

definition isWhiteSpace :: "char \<Rightarrow> bool" where
  "isWhiteSpace c = (of_char c \<in> {9, 10, 11, 12, 13, 32, 160 :: nat})"

definition isDigit :: "char \<Rightarrow> bool" where
  "isDigit c = (48 \<le> (of_char c :: nat) \<and> (of_char c :: nat) \<le> 57)"

definition digitsValue :: "string \<Rightarrow> int" where
  "digitsValue ds = foldl (\<lambda>a d. 10 * a + (int (of_char d) - 48)) 0 ds"

definition toNumber :: "int \<Rightarrow> jsnum" where
  "toNumber n = (if \<bar>n\<bar> \<le> 2 ^ 53 then Num n else Huge)"

text \<open>
  \<open>parseInt(s, 10)\<close>: leading white space is skipped, one sign is read, the longest run of
  decimal digits is the value, and no digit at all gives \<open>NaN\<close>. The negative zero of
  \<open>parseInt("-0")\<close> is \<open>Num 0\<close>.
\<close>

definition parseInt10 :: "string \<Rightarrow> jsnum" where
  "parseInt10 s =
     (let t = dropWhile isWhiteSpace s;
          neg = (t \<noteq> [] \<and> hd t = CHR ''-'');
          u = (if t \<noteq> [] \<and> (hd t = CHR ''-'' \<or> hd t = CHR ''+'') then tl t else t);
          z = takeWhile isDigit u
      in if z = [] then NaN
         else toNumber (if neg then - digitsValue z else digitsValue z))"

definition isNaN :: "jsnum \<Rightarrow> bool" where
  "isNaN n = (n = NaN)"

subsection \<open>Base64 encoding of a buffer\<close>

definition base64Alphabet :: string where
  "base64Alphabet = ''ABCDEFGHIJKLMNOPQRSTUVWXYZabcdefghijklmnopqrstuvwxyz0123456789+/''"

definition b64 :: "nat \<Rightarrow> char" where
  "b64 i = base64Alphabet ! (i mod 64)"

text \<open>\<open>buf.toString("base64")\<close>: three bytes give four characters, the tail is padded.\<close>

fun toStringBase64 :: "buffer \<Rightarrow> string" where
  "toStringBase64 (a # b # c # rest) =
     [b64 (unat a div 4), b64 (unat a mod 4 * 16 + unat b div 16),
      b64 (unat b mod 16 * 4 + unat c div 64), b64 (unat c mod 64)] @ toStringBase64 rest"
| "toStringBase64 [a, b] =
     [b64 (unat a div 4), b64 (unat a mod 4 * 16 + unat b div 16),
      b64 (unat b mod 16 * 4), CHR ''='']"
| "toStringBase64 [a] =
     [b64 (unat a div 4), b64 (unat a mod 4 * 16), CHR ''='', CHR ''='']"
| "toStringBase64 [] = []"

section \<open>messageParser: SCRAM parameters\<close>

text \<open>
  The object \<open>params\<close> is the map of its own properties. An assignment
  \<open>params["__proto__"] = value\<close> with a string \<open>value\<close> reaches the setter of
  \<open>Object.prototype\<close>, which ignores a value that is neither an object nor \<open>null\<close>.
\<close>

definition setStringProp :: "(string \<rightharpoonup> string) \<Rightarrow> string \<Rightarrow> string \<Rightarrow> (string \<rightharpoonup> string)" where
  "setStringProp obj key v = (if key = ''__proto__'' then obj else obj(key \<mapsto> v))"

text \<open>
  The body of the loop of \<open>parseSCRAMParams\<close>:
  \<open>const [key, value] = pair.split("=", 2); if (key && value !== undefined) params[key] = value\<close>.
\<close>

definition scramPair :: "(string \<rightharpoonup> string) \<Rightarrow> string \<Rightarrow> (string \<rightharpoonup> string)" where
  "scramPair params pair =
     (case split_limit CHR ''='' 2 pair of
        key # v # _ \<Rightarrow> (if key \<noteq> [] then setStringProp params key v else params)
      | _ \<Rightarrow> params)"

definition parseSCRAMParams :: "string \<Rightarrow> (string \<rightharpoonup> string)" where
  "parseSCRAMParams str = foldl scramPair Map.empty (split_on CHR '','' str)"

section \<open>scramAuth: the SCRAM-SHA-256 exchange\<close>

text \<open>The object \<open>scramState\<close>; \<open>None\<close> is JavaScript's \<open>null\<close>.\<close>

record scram_state =
  clientNonce :: "string option"
  serverNonce :: "string option"
  salt :: "buffer option"
  iterations :: jsnum
  clientFirstMessage :: "string option"
  clientFirstMessageBare :: "string option"
  clientFinalMessage :: "string option"
  clientFinalMessageWithoutProof :: "string option"
  serverFirstMessage :: "string option"
  serverFinalMessage :: "string option"
  saltedPassword :: "buffer option"
  authMessage :: "string option"

text \<open>The state that the constructor of the connection builds.\<close>

definition initialScram :: scram_state where
  "initialScram =
     \<lparr>clientNonce = None, serverNonce = None, salt = None, iterations = Num 0,
      clientFirstMessage = None, clientFirstMessageBare = None, clientFinalMessage = None,
      clientFinalMessageWithoutProof = None, serverFirstMessage = None,
      serverFinalMessage = None, saltedPassword = None, authMessage = None\<rparr>"

text \<open>\<open>name.replace(/=/g, "=3D").replace(/,/g, "=2C")\<close>.\<close>

definition saslName :: "string \<Rightarrow> string" where
  "saslName name =
     concat (map (\<lambda>c. if c = CHR '','' then ''=2C'' else [c])
       (concat (map (\<lambda>c. if c = CHR ''='' then ''=3D'' else [c]) name)))"

text \<open>
  \<open>startSCRAMSHA256\<close>; the argument \<open>rnd\<close> is the buffer that \<open>crypto.randomBytes(18)\<close>
  returns.
\<close>

definition startSCRAMSHA256 :: "scram_state \<Rightarrow> string \<Rightarrow> buffer \<Rightarrow> scram_state" where
  "startSCRAMSHA256 scramState user rnd =
     (let nonce = toStringBase64 rnd;
          gs2Header = ''n,,'';
          bare = ''n='' @ saslName user @ '',r='' @ nonce
      in scramState\<lparr>clientNonce := Some nonce,
                     clientFirstMessageBare := Some bare,
                     clientFirstMessage := Some (gs2Header @ bare)\<rparr>)"

text \<open>
  The loop \<open>clientProof[i] = clientKey[i] ^ clientSignature[i]\<close> over the indices of
  \<open>clientKey\<close>; an index past the end of \<open>clientSignature\<close> reads \<open>undefined\<close>, which
  \<open>^\<close> takes as 0.
\<close>

definition xorLoop :: "buffer \<Rightarrow> buffer \<Rightarrow> buffer" where
  "xorLoop clientKey clientSignature =
     map (\<lambda>i. (clientKey ! i) XOR (if i < length clientSignature then clientSignature ! i else 0))
       [0 ..< length clientKey]"

text \<open>
  A call either returns the state with an error or \<open>null\<close>, or throws; the state is one
  mutable object, so what was assigned before a throw stays assigned.
\<close>

datatype scram_result =
    Threw (stateOf: scram_state)
  | Returned (stateOf: scram_state) (errorOf: "string option")

definition processSASLContinue :: "platform \<Rightarrow> scram_state \<Rightarrow> buffer \<Rightarrow> string \<Rightarrow> scram_result" where
  "processSASLContinue P scramState message password =
     (let serverFirst = toStringUtf8 P message;
          st1 = scramState\<lparr>serverFirstMessage := Some serverFirst\<rparr>;
          params = parseSCRAMParams serverFirst
      in case params ''r'' of
           None \<Rightarrow> Returned st1 (Some ''Server nonce does not start with client nonce'')
         | Some r \<Rightarrow>
             if r = [] \<or> \<not> startsWith r (toStringOrNull (clientNonce st1))
             then Returned st1 (Some ''Server nonce does not start with client nonce'')
             else (case (params ''s'', params ''i'') of
                     (Some s, Some i) \<Rightarrow>
                       if s = [] \<or> i = []
                       then Returned st1 (Some ''Server first message missing salt or iteration count'')
                       else
                         (let st2 = st1\<lparr>serverNonce := Some r,
                                        salt := Some (base64Decode P s),
                                        iterations := parseInt10 i\<rparr>;
                              normalizedPassword = normalizeNFKC P password
                          in case pbkdf2Sha256 P normalizedPassword (base64Decode P s) (parseInt10 i) 32 of
                               None \<Rightarrow> Threw st2
                             | Some sp \<Rightarrow>
                                 (let st3 = st2\<lparr>saltedPassword := Some sp\<rparr>;
                                      clientKey = hmacSha256 P sp ''Client Key'';
                                      storedKey = sha256 P clientKey;
                                      withoutProof = ''c=biws,r='' @ r;
                                      auth = joinElem (clientFirstMessageBare st3) @ '','' @
                                             serverFirst @ '','' @ withoutProof;
                                      st4 = st3\<lparr>clientFinalMessageWithoutProof := Some withoutProof,
                                                 authMessage := Some auth\<rparr>;
                                      clientSignature = hmacSha256 P storedKey auth;
                                      clientProof = xorLoop clientKey clientSignature
                                  in Returned
                                       (st4\<lparr>clientFinalMessage :=
                                               Some (withoutProof @ '',p='' @ toStringBase64 clientProof)\<rparr>)
                                       None))
                   | _ \<Rightarrow> Returned st1 (Some ''Server first message missing salt or iteration count'')))"

text \<open>
  \<open>processSASLFinal\<close> returns an error or \<open>null\<close>. \<open>createHmac\<close> throws on a \<open>null\<close> key
  and \<open>update\<close> on a \<open>null\<close> message.
\<close>

definition processSASLFinal :: "platform \<Rightarrow> scram_state \<Rightarrow> buffer \<Rightarrow> scram_result" where
  "processSASLFinal P scramState message =
     (let serverFinal = toStringUtf8 P message;
          st1 = scramState\<lparr>serverFinalMessage := Some serverFinal\<rparr>
      in if startsWith serverFinal ''e=''
         then Returned st1 (Some (''SCRAM authentication failed: '' @ serverFinal))
         else (case parseSCRAMParams serverFinal ''v'' of
                 None \<Rightarrow> Returned st1 (Some ''Server final message missing signature (v)'')
               | Some v \<Rightarrow>
                   if v = [] then Returned st1 (Some ''Server final message missing signature (v)'')
                   else (case (saltedPassword st1, authMessage st1) of
                           (Some sp, Some auth) \<Rightarrow>
                             (let serverSignature = base64Decode P v;
                                  serverKey = hmacSha256 P sp ''Server Key'';
                                  expectedServerSignature = hmacSha256 P serverKey auth
                              in if serverSignature \<noteq> expectedServerSignature
                                 then Returned st1 (Some ''Server signature verification failed'')
                                 else Returned st1 None)
                         | _ \<Rightarrow> Threw st1)))"

section \<open>The exchange of RFC 7677, section 3\<close>

text \<open>
  The messages of the example exchange of RFC 7677 (user \<open>user\<close>, password \<open>pencil\<close>), and
  the values that PBKDF2, HMAC-SHA-256 and SHA-256 take on them.
\<close>

definition asciiDecode :: "buffer \<Rightarrow> string" where
  "asciiDecode buf = map (\<lambda>b. char_of (unat b)) buf"

definition asciiBytes :: "string \<Rightarrow> buffer" where
  "asciiBytes s = map (\<lambda>c. of_nat (of_char c)) s"

definition rfcClientNonce :: string where
  "rfcClientNonce = ''rOprNGfwEbeRWgbNEkqO''"

definition rfcServerFirst :: string where
  "rfcServerFirst = ''r=rOprNGfwEbeRWgbNEkqO%hvYDpWUa2RaTCAfuxFIlj)hNlF$k0,s=W22ZaJ0SNY7soEsUEjb6gQ==,i=4096''"

definition rfcServerFinal :: string where
  "rfcServerFinal = ''v=6rriTRBi23WpRR/wtup+mMhUZUn/dB5nLTJRsjl95G4=''"

definition rfcAuthMessage :: string where
  "rfcAuthMessage = ''n=user,r=rOprNGfwEbeRWgbNEkqO,r=rOprNGfwEbeRWgbNEkqO%hvYDpWUa2RaTCAfuxFIlj)hNlF$k0,s=W22ZaJ0SNY7soEsUEjb6gQ==,i=4096,c=biws,r=rOprNGfwEbeRWgbNEkqO%hvYDpWUa2RaTCAfuxFIlj)hNlF$k0''"

definition rfcClientFinal :: string where
  "rfcClientFinal = ''c=biws,r=rOprNGfwEbeRWgbNEkqO%hvYDpWUa2RaTCAfuxFIlj)hNlF$k0,p=dHzbZapWIk4jUhN+Ute9ytag9zjfMHgsqmmiz7AndVQ=''"

definition rfcSalt :: buffer where
  "rfcSalt =
     [91, 109, 153, 104, 157, 18, 53, 142, 236, 160, 75, 20, 18, 54, 250, 129]"

definition rfcSaltedPassword :: buffer where
  "rfcSaltedPassword =
     [196, 164, 149, 16, 50, 58, 180, 249, 82, 202, 193, 250, 153, 68, 25, 57, 231, 142,
      167, 77, 107, 232, 29, 223, 112, 150, 232, 117, 19, 220, 97, 93]"

definition rfcClientKey :: buffer where
  "rfcClientKey =
     [166, 15, 201, 35, 214, 126, 134, 68, 169, 45, 22, 185, 110, 218, 94, 244, 101, 107,
      12, 114, 92, 72, 67, 116, 190, 37, 83, 85, 118, 153, 110, 139]"

definition rfcStoredKey :: buffer where
  "rfcStoredKey =
     [88, 110, 93, 242, 131, 230, 220, 235, 92, 62, 121, 29, 139, 133, 40, 236, 25, 30,
      102, 64, 69, 206, 151, 23, 146, 226, 230, 181, 187, 19, 226, 166]"

definition rfcClientSignature :: buffer where
  "rfcClientSignature =
     [210, 115, 18, 70, 124, 40, 164, 10, 138, 127, 5, 199, 60, 13, 227, 62, 179, 203, 251,
      74, 131, 120, 59, 88, 20, 76, 241, 154, 198, 190, 27, 223]"

definition rfcServerKey :: buffer where
  "rfcServerKey =
     [193, 243, 203, 193, 193, 58, 157, 53, 161, 76, 9, 144, 238, 217, 118, 41, 234, 34,
      88, 99, 229, 102, 164, 49, 74, 185, 159, 63, 0, 229, 217, 213]"

definition rfcServerSignature :: buffer where
  "rfcServerSignature =
     [234, 186, 226, 77, 16, 98, 219, 117, 169, 69, 31, 240, 182, 234, 126, 152, 200, 84,
      101, 73, 255, 116, 30, 103, 45, 50, 81, 178, 57, 125, 228, 110]"

text \<open>The state of the client after its first message, with the nonce of the example.\<close>

definition rfcState :: scram_state where
  "rfcState =
     initialScram\<lparr>clientNonce := Some rfcClientNonce,
                   clientFirstMessageBare := Some (''n=user,r='' @ rfcClientNonce),
                   clientFirstMessage := Some (''n,,n=user,r='' @ rfcClientNonce)\<rparr>"

text \<open>
  A platform agrees with the example when its primitives take the example's values on the
  example's inputs. The salt and the signature reach \<open>base64Decode\<close> as \<open>parseSCRAMParams\<close>
  stored them.
\<close>

definition agreesWithRFC7677 :: "platform \<Rightarrow> bool" where
  "agreesWithRFC7677 P =
     (toStringUtf8 P (asciiBytes rfcServerFirst) = rfcServerFirst \<and>
      toStringUtf8 P (asciiBytes rfcServerFinal) = rfcServerFinal \<and>
      normalizeNFKC P ''pencil'' = ''pencil'' \<and>
      base64Decode P ''W22ZaJ0SNY7soEsUEjb6gQ'' = rfcSalt \<and>
      base64Decode P ''6rriTRBi23WpRR/wtup+mMhUZUn/dB5nLTJRsjl95G4'' = rfcServerSignature \<and>
      pbkdf2Sha256 P ''pencil'' rfcSalt (Num 4096) 32 = Some rfcSaltedPassword \<and>
      hmacSha256 P rfcSaltedPassword ''Client Key'' = rfcClientKey \<and>
      sha256 P rfcClientKey = rfcStoredKey \<and>
      hmacSha256 P rfcStoredKey rfcAuthMessage = rfcClientSignature \<and>
      hmacSha256 P rfcSaltedPassword ''Server Key'' = rfcServerKey \<and>
      hmacSha256 P rfcServerKey rfcAuthMessage = rfcServerSignature)"

text \<open>
  A platform that is a table of the example's values, with digests of 32 zero bytes
  elsewhere, one fixed MD5 digest and the random bytes 1 to 18.
\<close>

definition demoRandom :: buffer where
  "demoRandom = [1, 2, 3, 4, 5, 6, 7, 8, 9, 10, 11, 12, 13, 14, 15, 16, 17, 18]"


definition tablePlatform :: platform where
  "tablePlatform =
     \<lparr>toStringUtf8 = asciiDecode,
      normalizeNFKC = (\<lambda>s. s),
      base64Decode = (\<lambda>s. if s = ''W22ZaJ0SNY7soEsUEjb6gQ'' then rfcSalt
                           else if s = ''6rriTRBi23WpRR/wtup+mMhUZUn/dB5nLTJRsjl95G4''
                           then rfcServerSignature else []),
      sha256 = (\<lambda>b. if b = rfcClientKey then rfcStoredKey else replicate 32 0),
      hmacSha256 = (\<lambda>k d. if k = rfcSaltedPassword \<and> d = ''Client Key'' then rfcClientKey
                            else if k = rfcStoredKey \<and> d = rfcAuthMessage then rfcClientSignature
                            else if k = rfcSaltedPassword \<and> d = ''Server Key'' then rfcServerKey
                            else if k = rfcServerKey \<and> d = rfcAuthMessage then rfcServerSignature
                            else replicate 32 0),
      pbkdf2Sha256 = (\<lambda>pw s n len.
                        if pw = ''pencil'' \<and> s = rfcSalt \<and> n = Num 4096 \<and> len = 32
                        then Some rfcSaltedPassword
                        else (case n of
                                Num k \<Rightarrow> if 1 \<le> k \<and> k < 2 ^ 31 then Some (replicate len 0) else None
                              | _ \<Rightarrow> None)),
      md5Hex = (\<lambda>s. ''d41d8cd98f00b204e9800998ecf8427e''),
      randomBytes = (\<lambda>n. demoRandom)\<rparr>"

text \<open>
  The formulas of the specification: the authentication message and the client proof.
\<close>

definition spec_authMessage :: "string \<Rightarrow> string \<Rightarrow> string \<Rightarrow> string \<Rightarrow> string" where
  "spec_authMessage user nonce serverFirst serverNonce' =
     (''n='' @ saslName user @ '',r='' @ nonce) @ '','' @ serverFirst @ '','' @
     (''c=biws,r='' @ serverNonce')"

definition spec_clientProof :: "platform \<Rightarrow> buffer \<Rightarrow> string \<Rightarrow> buffer" where
  "spec_clientProof P saltedPassword' auth =
     (let clientKey = hmacSha256 P saltedPassword' ''Client Key'';
          clientSignature = hmacSha256 P (sha256 P clientKey) auth
      in map2 (XOR) clientKey clientSignature)"

text \<open>
  The formula of the specification for the signature that the server must send:
  \<open>HMAC(HMAC(saltedPassword, "Server Key"), authMessage)\<close>.
\<close>

definition spec_serverSignature :: "platform \<Rightarrow> buffer \<Rightarrow> string \<Rightarrow> buffer" where
  "spec_serverSignature P saltedPassword' auth =
     hmacSha256 P (hmacSha256 P saltedPassword' ''Server Key'') auth"

text \<open>
  A second exchange, for a client whose random bytes are 1 to 18, against the table
  platform: one well-formed server-first message and two malformed ones.
\<close>

definition demoState :: scram_state where
  "demoState = startSCRAMSHA256 initialScram ''user'' demoRandom"

definition demoServerFirst :: string where
  "demoServerFirst = ''r=AQIDBAUGBwgJCgsMDQ4PEBESsrv,s=QUJD,i=4096''"

definition demoWrongNonce :: string where
  "demoWrongNonce = ''r=zzz,s=QUJD,i=4096''"

definition demoNoSalt :: string where
  "demoNoSalt = ''r=AQIDBAUGBwgJCgsMDQ4PEBESsrv,i=4096''"

text \<open>
  A server-first message whose nonce holds a \<open>=\<close> after the client nonce, and a server-final
  message whose \<open>v\<close> is the salt of the RFC instead of the signature.
\<close>

definition demoNonceWithEquals :: string where
  "demoNonceWithEquals = ''r=AQIDBAUGBwgJCgsMDQ4PEBES=srv,s=QUJD,i=4096''"

definition demoWrongFinal :: string where
  "demoWrongFinal = ''v=W22ZaJ0SNY7soEsUEjb6gQ''"

text \<open>A call that returns with an error.\<close>

definition returnsError :: "scram_result \<Rightarrow> bool" where
  "returnsError res = (case res of Returned _ (Some _) \<Rightarrow> True | _ \<Rightarrow> False)"

section \<open>messageParser: reading buffers\<close>

datatype js_error = RangeError | TypeError

text \<open>
  \<open>buf.toString("utf8", start, end)\<close>: the bounds are clamped to the buffer and an empty
  range gives the empty string.
\<close>

definition toStringRange :: "platform \<Rightarrow> buffer \<Rightarrow> int \<Rightarrow> int \<Rightarrow> string" where
  "toStringRange P buf start end' =
     (let s = max 0 start; e = min (int (length buf)) end'
      in if e \<le> s then [] else toStringUtf8 P (take (nat (e - s)) (drop (nat s) buf)))"

text \<open>The big-endian signed integers that \<open>readInt16BE\<close> and \<open>readInt32BE\<close> return.\<close>

definition int16Of :: "byte \<Rightarrow> byte \<Rightarrow> int" where
  "int16Of b0 b1 =
     (let u = uint b0 * 256 + uint b1 in if u \<ge> 2 ^ 15 then u - 2 ^ 16 else u)"

definition int32Of :: "byte \<Rightarrow> byte \<Rightarrow> byte \<Rightarrow> byte \<Rightarrow> int" where
  "int32Of b0 b1 b2 b3 =
     (let u = ((uint b0 * 256 + uint b1) * 256 + uint b2) * 256 + uint b3
      in if u \<ge> 2 ^ 31 then u - 2 ^ 32 else u)"

text \<open>Both reads throw a \<open>RangeError\<close> when the offset leaves the buffer.\<close>

definition readInt16BE :: "buffer \<Rightarrow> int \<Rightarrow> js_error + int" where
  "readInt16BE buf offset =
     (if offset < 0 \<or> offset + 2 > int (length buf) then Inl RangeError
      else Inr (int16Of (buf ! nat offset) (buf ! (nat offset + 1))))"

definition readInt32BE :: "buffer \<Rightarrow> int \<Rightarrow> js_error + int" where
  "readInt32BE buf offset =
     (if offset < 0 \<or> offset + 4 > int (length buf) then Inl RangeError
      else Inr (int32Of (buf ! nat offset) (buf ! (nat offset + 1))
                        (buf ! (nat offset + 2)) (buf ! (nat offset + 3))))"

text \<open>
  \<open>readCString\<close>: the loop moves \<open>end\<close> from \<open>offset\<close> to the first zero byte or to the end
  of the buffer.
\<close>

definition readCString :: "platform \<Rightarrow> buffer \<Rightarrow> nat \<Rightarrow> string" where
  "readCString P buf offset =
     (let end' = offset + length (takeWhile (\<lambda>b. b \<noteq> 0) (drop offset buf))
      in toStringRange P buf (int offset) (int end'))"

section \<open>messageParser: CommandComplete\<close>

text \<open>
  \<open>toLowerCase\<close> on the code units of the model: the ASCII capitals and the capitals of
  Latin-1.
\<close>

definition toLowerChar :: "char \<Rightarrow> char" where
  "toLowerChar c =
     (let n = (of_char c :: nat)
      in if (65 \<le> n \<and> n \<le> 90) \<or> (192 \<le> n \<and> n \<le> 222 \<and> n \<noteq> 215)
         then char_of (n + 32) else c)"

definition toLowerCase :: "string \<Rightarrow> string" where
  "toLowerCase s = map toLowerChar s"

text \<open>The object that \<open>parseCommandComplete\<close> returns; an \<open>oid\<close> of \<open>None\<close> is \<open>null\<close>.\<close>

record command_complete =
  command :: string
  rowCount :: jsnum
  oid :: "jsnum option"
  commandTag :: string

text \<open>
  \<open>split\<close> never returns an empty array, so \<open>parts[0]\<close> is \<open>hd parts\<close>, also after the
  \<open>pop\<close> of the second branch, which runs on two tokens or more.
\<close>

definition parseCommandComplete :: "platform \<Rightarrow> buffer \<Rightarrow> command_complete" where
  "parseCommandComplete P message =
     (let tag = readCString P message 0;
          parts = split_on CHR '' '' tag
      in if length parts = 3 \<and> toLowerCase (parts ! 0) = ''insert''
         then \<lparr>command = parts ! 0, rowCount = parseInt10 (parts ! 2),
                oid = Some (parseInt10 (parts ! 1)), commandTag = tag\<rparr>
         else if length parts \<ge> 2
         then (let n = parseInt10 (last parts)
               in \<lparr>command = hd (butlast parts), rowCount = (if isNaN n then Num 0 else n),
                    oid = None, commandTag = tag\<rparr>)
         else \<lparr>command = hd parts, rowCount = Num 0, oid = None, commandTag = tag\<rparr>)"

text \<open>
  The rule of the specification, on the tokens of the tag: three tokens of which the first
  is \<open>INSERT\<close> in any case give the oid and the row count; otherwise the last token is the
  row count, 0 when it is not a number.
\<close>

definition spec_commandComplete :: "string \<Rightarrow> command_complete" where
  "spec_commandComplete tag =
     (let tokens = split_on CHR '' '' tag
      in if length tokens = 3 \<and> toLowerCase (tokens ! 0) = ''insert''
         then \<lparr>command = hd tokens, rowCount = parseInt10 (tokens ! 2),
                oid = Some (parseInt10 (tokens ! 1)), commandTag = tag\<rparr>
         else \<lparr>command = hd tokens,
                rowCount = (if isNaN (parseInt10 (last tokens)) then Num 0
                            else parseInt10 (last tokens)),
                oid = None, commandTag = tag\<rparr>)"

text \<open>
  The same rule with the guard of the code: the last token is parsed only when there are
  two tokens or more, and a tag of one token has the row count 0.
\<close>

definition spec_commandComplete_guarded :: "string \<Rightarrow> command_complete" where
  "spec_commandComplete_guarded tag =
     (let tokens = split_on CHR '' '' tag
      in if length tokens = 3 \<and> toLowerCase (tokens ! 0) = ''insert''
         then \<lparr>command = hd tokens, rowCount = parseInt10 (tokens ! 2),
                oid = Some (parseInt10 (tokens ! 1)), commandTag = tag\<rparr>
         else \<lparr>command = hd tokens,
                rowCount = (if length tokens \<ge> 2
                            then (if isNaN (parseInt10 (last tokens)) then Num 0
                                  else parseInt10 (last tokens))
                            else Num 0),
                oid = None, commandTag = tag\<rparr>)"

section \<open>messageParser: DataRow\<close>

text \<open>The field descriptors that \<open>parseRowDescription\<close> builds.\<close>

record field =
  name :: string
  tableOID :: int
  columnAttrNum :: int
  dataTypeOID :: int
  dataTypeSize :: int
  typeModifier :: int
  format :: int

datatype colvalue = Null | Str string

text \<open>
  The object \<open>row\<close>: its own properties, and whether its prototype has been set to \<open>null\<close>.
  While the prototype is \<open>Object.prototype\<close>, the assignment \<open>row["__proto__"] = v\<close> reaches
  the setter of the prototype: it ignores a string and, for \<open>null\<close>, removes the prototype.
  Once the prototype is \<open>null\<close> the assignment creates an own property like any other.
\<close>

record row =
  props :: "string \<rightharpoonup> colvalue"
  protoIsNull :: bool

definition emptyRow :: row where
  "emptyRow = \<lparr>props = Map.empty, protoIsNull = False\<rparr>"

definition setRowProp :: "row \<Rightarrow> string \<Rightarrow> colvalue \<Rightarrow> row" where
  "setRowProp r key v =
     (if key = ''__proto__'' \<and> \<not> protoIsNull r
      then (case v of Null \<Rightarrow> r\<lparr>protoIsNull := True\<rparr> | Str _ \<Rightarrow> r)
      else r\<lparr>props := (props r)(key \<mapsto> v)\<rparr>)"

text \<open>
  The loop of \<open>parseDataRow\<close>, over the fields that its condition
  \<open>i < fieldCount && i < fields.length\<close> admits. A \<open>break\<close> returns the row built so far.
\<close>

fun dataRowLoop :: "platform \<Rightarrow> buffer \<Rightarrow> field list \<Rightarrow> int \<Rightarrow> row \<Rightarrow> js_error + row" where
  "dataRowLoop P message [] offset r = Inr r"
| "dataRowLoop P message (f # fs) offset r =
     (if offset + 4 > int (length message) then Inr r
      else (case readInt32BE message offset of
              Inl e \<Rightarrow> Inl e
            | Inr len \<Rightarrow>
                if len = - 1
                then dataRowLoop P message fs (offset + 4) (setRowProp r (name f) Null)
                else if offset + 4 + len > int (length message) then Inr r
                else dataRowLoop P message fs (offset + 4 + len)
                       (setRowProp r (name f)
                          (Str (toStringRange P message (offset + 4) (offset + 4 + len))))))"

text \<open>
  \<open>parseDataRow\<close>; its argument \<open>fields\<close> is \<open>null\<close> until a RowDescription has arrived, and
  \<open>fields.length\<close> is then a \<open>TypeError\<close> as soon as the loop condition reads it.
\<close>

definition parseDataRow :: "platform \<Rightarrow> buffer \<Rightarrow> field list option \<Rightarrow> js_error + row" where
  "parseDataRow P message fieldList =
     (case readInt16BE message 0 of
        Inl e \<Rightarrow> Inl e
      | Inr fieldCount \<Rightarrow>
          (case fieldList of
             None \<Rightarrow> if 0 < fieldCount then Inl TypeError else Inr emptyRow
           | Some fs \<Rightarrow> dataRowLoop P message (take (nat fieldCount) fs) 2 emptyRow))"

text \<open>
  The encoding of a DataRow body as the server writes it: the number of columns, then for
  each column its length and its bytes, or the length \<open>-1\<close> for NULL.
\<close>

definition writeInt16BE :: "int \<Rightarrow> buffer" where
  "writeInt16BE n = [word_of_int (n div 256), word_of_int n]"

definition writeInt32BE :: "int \<Rightarrow> buffer" where
  "writeInt32BE n =
     [word_of_int (n div 16777216), word_of_int (n div 65536), word_of_int (n div 256),
      word_of_int n]"

definition encodeColumn :: "buffer option \<Rightarrow> buffer" where
  "encodeColumn col =
     (case col of None \<Rightarrow> writeInt32BE (- 1) | Some v \<Rightarrow> writeInt32BE (int (length v)) @ v)"

definition encodeDataRow :: "buffer option list \<Rightarrow> buffer" where
  "encodeDataRow cols = writeInt16BE (int (length cols)) @ concat (map encodeColumn cols)"

text \<open>The value that a column decodes to: \<open>null\<close>, or \<open>v.toString("utf8")\<close>.\<close>

definition columnValue :: "platform \<Rightarrow> buffer option \<Rightarrow> colvalue" where
  "columnValue P col =
     (case col of None \<Rightarrow> Null | Some v \<Rightarrow> Str (toStringRange P v 0 (int (length v))))"

definition mkField :: "string \<Rightarrow> field" where
  "mkField n = \<lparr>name = n, tableOID = 0, columnAttrNum = 0, dataTypeOID = 25,
               dataTypeSize = - 1, typeModifier = - 1, format = 0\<rparr>"

text \<open>The assignment \<open>row[fields[i].name] = value\<close> for one decoded column.\<close>

definition storeColumn :: "platform \<Rightarrow> row \<Rightarrow> field \<times> buffer option \<Rightarrow> row" where
  "storeColumn P r fc = setRowProp r (name (fst fc)) (columnValue P (snd fc))"

text \<open>The own property \<open>key\<close> of the row that a call returned; \<open>None\<close> when there is none.\<close>

definition column :: "js_error + row \<Rightarrow> string \<Rightarrow> colvalue option" where
  "column res key = (case res of Inl _ \<Rightarrow> None | Inr r \<Rightarrow> props r key)"

section \<open>pgConnection: the framing loop\<close>

text \<open>
  The loop of \<open>_processIncomingData\<close>, on the accumulator \<open>this.buffer\<close> and the state \<open>s\<close>
  that \<open>_processMessage\<close> works on; \<open>dispatch s message\<close> is the call
  \<open>this._processMessage(message)\<close>, which never reads or writes the accumulator. The loop
  returns the accumulator and the state it leaves. \<open>headerLength\<close> is
  \<open>this.buffer.readInt32BE(1)\<close>, which cannot throw on five bytes or more.
\<close>

definition headerLength :: "buffer \<Rightarrow> int" where
  "headerLength buf = int32Of (buf ! 1) (buf ! 2) (buf ! 3) (buf ! 4)"

function processIncomingData :: "('s \<Rightarrow> buffer \<Rightarrow> 's) \<Rightarrow> buffer \<Rightarrow> 's \<Rightarrow> buffer \<times> 's" where
  "processIncomingData dispatch buf s =
     (if length buf \<ge> 5
      then (let len = headerLength buf
            in if len < 4 then processIncomingData dispatch (drop 1 buf) s
               else (let totalMessageLength = len + 1
                     in if int (length buf) < totalMessageLength then (buf, s)
                        else processIncomingData dispatch (drop (nat totalMessageLength) buf)
                               (dispatch s (take (nat totalMessageLength) buf))))
      else (buf, s))"
  by pat_completeness auto
termination
  by (relation "measure (\<lambda>(dispatch, buf, s). length buf)") auto

declare processIncomingData.simps [simp del]

text \<open>
  The handler of the socket's \<open>data\<close> event: the chunk is appended to the accumulator and
  the loop runs.
\<close>

definition onData :: "('s \<Rightarrow> buffer \<Rightarrow> 's) \<Rightarrow> buffer \<times> 's \<Rightarrow> buffer \<Rightarrow> buffer \<times> 's" where
  "onData dispatch bs chunk = processIncomingData dispatch (fst bs @ chunk) (snd bs)"

text \<open>A dispatch that records the message, and the framer fed with chunks from an empty accumulator.\<close>

definition recordMessage :: "buffer list \<Rightarrow> buffer \<Rightarrow> buffer list" where
  "recordMessage log message = log @ [message]"

definition feedChunks :: "buffer list \<Rightarrow> buffer \<times> buffer list" where
  "feedChunks chunks = foldl (onData recordMessage) ([], []) chunks"

text \<open>
  A well-formed typed message: a type byte, the length as a big-endian \<open>int32\<close> that counts
  itself and the body but not the type byte, and the body.
\<close>

definition wellFormed :: "buffer \<Rightarrow> bool" where
  "wellFormed m =
     (length m \<ge> 5 \<and> headerLength m = int (length m) - 1)"

text \<open>The frame with type byte \<open>t\<close> and body \<open>body\<close>.\<close>

definition frame :: "byte \<Rightarrow> buffer \<Rightarrow> buffer" where
  "frame t body = t # writeInt32BE (int (length body) + 4) @ body"

text \<open>
  Two messages of a server, ReadyForQuery with status \<open>I\<close> and CommandComplete with the
  tag \<open>SELECT 1\<close>, and their byte stream cut into three chunks.
\<close>

definition demoReady :: buffer where
  "demoReady = [0x5A, 0, 0, 0, 5, 0x49]"

definition demoComplete :: buffer where
  "demoComplete = [0x43, 0, 0, 0, 13, 0x53, 0x45, 0x4C, 0x45, 0x43, 0x54, 0x20, 0x31, 0]"

definition demoChunks :: "buffer list" where
  "demoChunks =
     [0x43, 0, 0] #
     [0, 13, 0x53, 0x45, 0x4C, 0x45, 0x43, 0x54, 0x20, 0x31, 0, 0x5A, 0] #
     [0, 0, 5, 0x49] # Nil"

section \<open>messageParser: key and value pairs, RowDescription\<close>

text \<open>
  The loop of \<open>parseNullTerminatedPairs\<close>: a key of one byte, then a C-string; the offset
  moves by the length of the decoded string plus one.
\<close>

function pairsLoop :: "platform \<Rightarrow> buffer \<Rightarrow> nat \<Rightarrow> (string \<rightharpoonup> string) \<Rightarrow> (string \<rightharpoonup> string)" where
  "pairsLoop P buf offset result =
     (if offset < length buf \<and> buf ! offset \<noteq> 0
      then (let key = toStringRange P buf (int offset) (int offset + 1);
                v = readCString P buf (offset + 1)
            in pairsLoop P buf (offset + 1 + length v + 1) (setStringProp result key v))
      else result)"
  by pat_completeness auto
termination
  by (relation "measure (\<lambda>(P, buf, offset, result). length buf - offset)") auto

declare pairsLoop.simps [simp del]

definition parseNullTerminatedPairs :: "platform \<Rightarrow> buffer \<Rightarrow> (string \<rightharpoonup> string)" where
  "parseNullTerminatedPairs P buf = pairsLoop P buf 0 Map.empty"

text \<open>
  One field of a RowDescription, read at \<open>offset\<close>. The caller has checked that 18 bytes
  follow the offset, so none of the six reads throws.
\<close>

definition readField :: "buffer \<Rightarrow> nat \<Rightarrow> string \<Rightarrow> field" where
  "readField m off n =
     \<lparr>name = n,
      tableOID = int32Of (m ! off) (m ! (off + 1)) (m ! (off + 2)) (m ! (off + 3)),
      columnAttrNum = int16Of (m ! (off + 4)) (m ! (off + 5)),
      dataTypeOID = int32Of (m ! (off + 6)) (m ! (off + 7)) (m ! (off + 8)) (m ! (off + 9)),
      dataTypeSize = int16Of (m ! (off + 10)) (m ! (off + 11)),
      typeModifier = int32Of (m ! (off + 12)) (m ! (off + 13)) (m ! (off + 14)) (m ! (off + 15)),
      format = int16Of (m ! (off + 16)) (m ! (off + 17))\<rparr>"

text \<open>The loop of \<open>parseRowDescription\<close>, for the iterations that are left.\<close>

fun rowDescriptionLoop :: "platform \<Rightarrow> buffer \<Rightarrow> nat \<Rightarrow> nat \<Rightarrow> field list \<Rightarrow> field list" where
  "rowDescriptionLoop P message 0 offset acc = acc"
| "rowDescriptionLoop P message (Suc n) offset acc =
     (let fieldName = readCString P message offset;
          offset' = offset + length fieldName + 1
      in if offset' + 18 > length message then acc
         else rowDescriptionLoop P message n (offset' + 18)
                (acc @ [readField message offset' fieldName]))"

definition parseRowDescription :: "platform \<Rightarrow> buffer \<Rightarrow> js_error + field list" where
  "parseRowDescription P message =
     (case readInt16BE message 0 of
        Inl e \<Rightarrow> Inl e
      | Inr fieldCount \<Rightarrow> Inr (rowDescriptionLoop P message (nat fieldCount) 2 []))"

section \<open>pgConnection: the connection\<close>

text \<open>
  What the connection does to the outside is kept in a history: the packets it writes to
  the socket (each named by the builder that makes it and the builder's arguments), the
  ReadyForQuery messages it handles, and the calls of \<open>resolve\<close> and \<open>reject\<close> on the
  promises of \<open>connect\<close>, \<open>query\<close> and \<open>close\<close>.
\<close>

datatype conn_error =
    ErrorMessage string
  | UnsupportedAuthenticationType int
  | NoSupportedSASLMechanism "string list"
  | JsException js_error

datatype packet =
    StartupPacket
  | QueryPacket string
  | PasswordPacket string bool
  | SASLInitialResponsePacket string string
  | TerminationPacket

text \<open>The object a query resolves with; an \<open>oid\<close> of \<open>None\<close> is \<open>null\<close> or \<open>undefined\<close>.\<close>

record query_result =
  qrRows :: "row list"
  qrFields :: "field list option"
  qrCommand :: string
  qrRowCount :: jsnum
  qrCommandTag :: string
  qrOid :: "jsnum option"

datatype promise = ConnectPromise | QueryPromise nat | ClosePromise

datatype settlement =
    ResolvedConnection
  | ResolvedResult query_result
  | ResolvedClose
  | Rejected conn_error

datatype observation =
    Wrote packet
  | Ended
  | ReadyForQueryReceived string
  | Settled promise settlement

text \<open>
  The variables \<open>results\<close>, \<open>fields\<close> and \<open>commandCompleteMessage\<close> that one call of \<open>query\<close>
  closes over.
\<close>

record closure =
  results :: "row list"
  fieldsVar :: "field list option"
  commandCompleteMessage :: "buffer option"

text \<open>
  The listeners on the socket: \<open>onReadyForQuery\<close> of \<open>connect\<close> and of the \<open>k\<close>-th call of
  \<open>query\<close> for the event \<open>readyForQuery\<close>, the handler of \<open>connect\<close> and \<open>onError\<close> of the
  \<open>k\<close>-th query for the event \<open>error\<close>.
\<close>

datatype ready_listener = ConnectOnReady | QueryOnReady nat

datatype error_listener = ConnectOnError | QueryOnError nat

text \<open>
  The connection object and what hangs on it: the closures of the calls of \<open>query\<close> (the
  \<open>k\<close>-th call has the index \<open>k\<close>), the timers of \<open>setTimeout\<close> that are pending, the
  listeners, the number of random draws made, the history, and whether an exception has
  left a handler of the socket uncaught, which ends the process. \<open>currentQuery\<close> holds the
  index of the call that built the object \<open>this.currentQuery\<close>.
\<close>

record conn =
  connUser :: string
  connPassword :: string
  socket :: bool
  buffer :: buffer
  processId :: int
  secretKey :: int
  state :: string
  readyForQuery :: bool
  currentQuery :: "nat option"
  scram :: scram_state
  closures :: "closure list"
  timers :: "nat list"
  readyListeners :: "ready_listener list"
  errorListeners :: "error_listener list"
  authErrorListener :: bool
  closeListeners :: nat
  draws :: nat
  history :: "observation list"
  crashed :: bool

text \<open>The constructor, with \<open>config.user || "postgres"\<close> and \<open>config.password || ""\<close>.\<close>

definition newConnection :: "string \<Rightarrow> string \<Rightarrow> conn" where
  "newConnection configUser configPassword =
     \<lparr>connUser = (if configUser = [] then ''postgres'' else configUser),
      connPassword = configPassword,
      socket = False, buffer = [], processId = 0, secretKey = 0,
      state = ''disconnected'', readyForQuery = True, currentQuery = None,
      scram = initialScram, closures = [], timers = [], readyListeners = [],
      errorListeners = [], authErrorListener = False, closeListeners = 0, draws = 0,
      history = [], crashed = False\<rparr>"

definition record_obs :: "observation \<Rightarrow> conn \<Rightarrow> conn" where
  "record_obs ob c = c\<lparr>history := history c @ [ob]\<rparr>"

text \<open>\<open>this.socket.write(packet)\<close>.\<close>

definition socketWrite :: "packet \<Rightarrow> conn \<Rightarrow> conn" where
  "socketWrite p c = record_obs (Wrote p) c"

subsection \<open>The closures of query\<close>

text \<open>
  \<open>cleanup\<close> of the \<open>k\<close>-th query: its timer is cleared, its two listeners are removed and
  \<open>this.currentQuery\<close> becomes \<open>null\<close>.
\<close>

definition cleanup :: "nat \<Rightarrow> conn \<Rightarrow> conn" where
  "cleanup k c =
     c\<lparr>timers := remove1 k (timers c),
       readyListeners := remove1 (QueryOnReady k) (readyListeners c),
       errorListeners := remove1 (QueryOnError k) (errorListeners c),
       currentQuery := None\<rparr>"

text \<open>The functions \<open>resolve\<close> and \<open>reject\<close> of the object \<open>this.currentQuery\<close> that query \<open>j\<close> built.\<close>

definition currentQueryResolve :: "nat \<Rightarrow> query_result \<Rightarrow> conn \<Rightarrow> conn" where
  "currentQueryResolve j data c =
     record_obs (Settled (QueryPromise j) (ResolvedResult data)) (c\<lparr>currentQuery := None\<rparr>)"

definition currentQueryReject :: "nat \<Rightarrow> conn_error \<Rightarrow> conn \<Rightarrow> conn" where
  "currentQueryReject j err c =
     record_obs (Settled (QueryPromise j) (Rejected err))
       (c\<lparr>currentQuery := None, readyForQuery := True\<rparr>)"

text \<open>
  The result that \<open>onReadyForQuery\<close> of the \<open>k\<close>-th query builds from its closure and the
  status of the ReadyForQuery message.
\<close>

definition buildResult :: "platform \<Rightarrow> closure \<Rightarrow> string \<Rightarrow> query_result" where
  "buildResult P cl status =
     (case commandCompleteMessage cl of
        Some m \<Rightarrow>
          (let parsed = parseCommandComplete P m
           in \<lparr>qrRows = results cl, qrFields = fieldsVar cl, qrCommand = command parsed,
                qrRowCount = rowCount parsed, qrCommandTag = commandTag parsed,
                qrOid = oid parsed\<rparr>)
      | None \<Rightarrow>
          if status = ''I''
          then \<lparr>qrRows = results cl, qrFields = fieldsVar cl, qrCommand = ''EMPTY'',
                 qrRowCount = Num 0, qrCommandTag = ''EMPTY'', qrOid = None\<rparr>
          else \<lparr>qrRows = results cl, qrFields = fieldsVar cl, qrCommand = ''UNKNOWN'',
                 qrRowCount = Num 0, qrCommandTag = [], qrOid = None\<rparr>)"

text \<open>
  \<open>onReadyForQuery\<close> of the \<open>k\<close>-th query. The resolver is the one of the object that
  \<open>this.currentQuery\<close> holds when the listener runs.
\<close>

definition queryOnReadyForQuery :: "platform \<Rightarrow> nat \<Rightarrow> string \<Rightarrow> conn \<Rightarrow> conn" where
  "queryOnReadyForQuery P k status c =
     (case currentQuery c of
        None \<Rightarrow> cleanup k c
      | Some j \<Rightarrow> currentQueryResolve j (buildResult P (closures c ! k) status) (cleanup k c))"

text \<open>\<open>onError\<close> of the \<open>k\<close>-th query: \<open>cleanup\<close>, then the \<open>reject\<close> of its own promise.\<close>

definition queryOnError :: "nat \<Rightarrow> conn_error \<Rightarrow> conn \<Rightarrow> conn" where
  "queryOnError k err c = record_obs (Settled (QueryPromise k) (Rejected err)) (cleanup k c)"

subsection \<open>The listeners of connect and the events of the socket\<close>

definition connectOnReadyForQuery :: "conn \<Rightarrow> conn" where
  "connectOnReadyForQuery c =
     record_obs (Settled ConnectPromise ResolvedConnection)
       (c\<lparr>readyForQuery := True, authErrorListener := False\<rparr>)"

definition connectOnAuthError :: "conn_error \<Rightarrow> conn \<Rightarrow> conn" where
  "connectOnAuthError err c =
     record_obs (Settled ConnectPromise (Rejected err))
       (c\<lparr>readyListeners := remove1 ConnectOnReady (readyListeners c)\<rparr>)"

definition connectOnError :: "conn_error \<Rightarrow> conn \<Rightarrow> conn" where
  "connectOnError err c =
     record_obs (Settled ConnectPromise (Rejected err)) (c\<lparr>state := ''error''\<rparr>)"

text \<open>
  \<open>emit\<close> calls the listeners that are registered when it starts, in the order of their
  registration; a listener registered with \<open>once\<close> is removed before it runs.
\<close>

definition fireReady :: "platform \<Rightarrow> string \<Rightarrow> conn \<Rightarrow> ready_listener \<Rightarrow> conn" where
  "fireReady P status c l =
     (let c1 = c\<lparr>readyListeners := remove1 l (readyListeners c)\<rparr>
      in case l of
           ConnectOnReady \<Rightarrow> connectOnReadyForQuery c1
         | QueryOnReady k \<Rightarrow> queryOnReadyForQuery P k status c1)"

definition emitReadyForQuery :: "platform \<Rightarrow> string \<Rightarrow> conn \<Rightarrow> conn" where
  "emitReadyForQuery P status c = foldl (fireReady P status) c (readyListeners c)"

definition fireError :: "conn_error \<Rightarrow> conn \<Rightarrow> error_listener \<Rightarrow> conn" where
  "fireError err c l =
     (case l of
        ConnectOnError \<Rightarrow> connectOnError err c
      | QueryOnError k \<Rightarrow>
          queryOnError k err (c\<lparr>errorListeners := remove1 l (errorListeners c)\<rparr>))"

text \<open>An \<open>error\<close> event without a listener is thrown by \<open>emit\<close>.\<close>

definition emitError :: "conn_error \<Rightarrow> conn \<Rightarrow> conn" where
  "emitError err c =
     (if errorListeners c = [] then c\<lparr>crashed := True\<rparr>
      else foldl (fireError err) c (errorListeners c))"

definition emitAuthenticationError :: "conn_error \<Rightarrow> conn \<Rightarrow> conn" where
  "emitAuthenticationError err c =
     (if authErrorListener c then connectOnAuthError err (c\<lparr>authErrorListener := False\<rparr>) else c)"

subsection \<open>The handlers of the messages\<close>

text \<open>\<open>buf.toString("hex")\<close>.\<close>

definition hexDigit :: "nat \<Rightarrow> char" where
  "hexDigit d = ''0123456789abcdef'' ! (d mod 16)"

definition toStringHex :: "buffer \<Rightarrow> string" where
  "toStringHex buf = concat (map (\<lambda>b. [hexDigit (unat b div 16), hexDigit (unat b mod 16)]) buf)"

definition handleMD5Authentication :: "platform \<Rightarrow> buffer \<Rightarrow> conn \<Rightarrow> conn" where
  "handleMD5Authentication P message c =
     (let saltBytes = take 4 message;
          firstHash = md5Hex P (connPassword c @ connUser c);
          secondHash = md5Hex P (firstHash @ toStringHex saltBytes)
      in socketWrite (PasswordPacket (''md5'' @ secondHash) True) c)"

text \<open>The loop of \<open>_handleSASLAuthentication\<close> that reads the names of the mechanisms.\<close>

function readMechanisms :: "platform \<Rightarrow> buffer \<Rightarrow> nat \<Rightarrow> string list" where
  "readMechanisms P message offset =
     (if offset < length message \<and> message ! offset \<noteq> 0
      then (let mechanism = readCString P message offset
            in mechanism # readMechanisms P message (offset + length mechanism + 1))
      else [])"
  by pat_completeness auto
termination
  by (relation "measure (\<lambda>(P, message, offset). length message - offset)") auto

declare readMechanisms.simps [simp del]

text \<open>
  \<open>Buffer.from(s, "utf8")\<close> in the packet builders throws a \<open>TypeError\<close> when \<open>s\<close> is
  \<open>null\<close>; the exception leaves the handler of the socket.
\<close>

definition handleSASLAuthentication :: "platform \<Rightarrow> buffer \<Rightarrow> conn \<Rightarrow> conn" where
  "handleSASLAuthentication P message c =
     (let mechanisms = readMechanisms P message 0
      in if ''SCRAM-SHA-256'' \<in> set mechanisms
         then (let st = startSCRAMSHA256 (scram c) (connUser c) (randomBytes P (draws c));
                   c1 = c\<lparr>scram := st, draws := draws c + 1\<rparr>
               in case clientFirstMessage st of
                    Some m \<Rightarrow> socketWrite (SASLInitialResponsePacket ''SCRAM-SHA-256'' m) c1
                  | None \<Rightarrow> c1\<lparr>crashed := True\<rparr>)
         else emitAuthenticationError (NoSupportedSASLMechanism mechanisms) c)"

definition handleSASLContinue :: "platform \<Rightarrow> buffer \<Rightarrow> conn \<Rightarrow> conn" where
  "handleSASLContinue P message c =
     (case processSASLContinue P (scram c) message (connPassword c) of
        Threw st \<Rightarrow> c\<lparr>scram := st, crashed := True\<rparr>
      | Returned st (Some e) \<Rightarrow> emitAuthenticationError (ErrorMessage e) (c\<lparr>scram := st\<rparr>)
      | Returned st None \<Rightarrow>
          (case clientFinalMessage st of
             Some m \<Rightarrow> socketWrite (PasswordPacket m False) (c\<lparr>scram := st\<rparr>)
           | None \<Rightarrow> c\<lparr>scram := st, crashed := True\<rparr>))"

text \<open>The event \<open>authenticated\<close> has no listener.\<close>

definition handleSASLFinal :: "platform \<Rightarrow> buffer \<Rightarrow> conn \<Rightarrow> conn" where
  "handleSASLFinal P message c =
     (case processSASLFinal P (scram c) message of
        Threw st \<Rightarrow> c\<lparr>scram := st, crashed := True\<rparr>
      | Returned st (Some e) \<Rightarrow> emitAuthenticationError (ErrorMessage e) (c\<lparr>scram := st\<rparr>)
      | Returned st None \<Rightarrow> c\<lparr>scram := st\<rparr>)"

definition handleAuthenticationMessage :: "platform \<Rightarrow> buffer \<Rightarrow> conn \<Rightarrow> conn" where
  "handleAuthenticationMessage P message c =
     (if length message < 4 then c
      else (let authType = int32Of (message ! 0) (message ! 1) (message ! 2) (message ! 3);
                authData = drop 4 message
            in if authType = 0 then c
               else if authType = 3 then socketWrite (PasswordPacket (connPassword c) True) c
               else if authType = 5 then handleMD5Authentication P authData c
               else if authType = 10 then handleSASLAuthentication P authData c
               else if authType = 11 then handleSASLContinue P authData c
               else if authType = 12 then handleSASLFinal P authData c
               else emitAuthenticationError (UnsupportedAuthenticationType authType) c))"

definition handleBackendKeyData :: "buffer \<Rightarrow> conn \<Rightarrow> conn" where
  "handleBackendKeyData message c =
     (if length message \<ge> 8
      then c\<lparr>processId := int32Of (message ! 0) (message ! 1) (message ! 2) (message ! 3),
             secretKey := int32Of (message ! 4) (message ! 5) (message ! 6) (message ! 7)\<rparr>
      else c)"

definition handleReadyForQuery :: "platform \<Rightarrow> buffer \<Rightarrow> conn \<Rightarrow> conn" where
  "handleReadyForQuery P message c =
     (let status = toStringRange P message 0 1
      in emitReadyForQuery P status
           (record_obs (ReadyForQueryReceived status) (c\<lparr>readyForQuery := True\<rparr>)))"

text \<open>
  \<open>_handleErrorResponse\<close>; the error carries \<open>fields.M || "PostgreSQL error"\<close> as its
  message.
\<close>

definition handleErrorResponse :: "platform \<Rightarrow> buffer \<Rightarrow> conn \<Rightarrow> conn" where
  "handleErrorResponse P message c =
     (let fieldMap = parseNullTerminatedPairs P message;
          err = ErrorMessage (case fieldMap ''M'' of
                                None \<Rightarrow> ''PostgreSQL error''
                              | Some m \<Rightarrow> if m = [] then ''PostgreSQL error'' else m)
      in case currentQuery c of
           Some j \<Rightarrow> (currentQueryReject j err c)\<lparr>currentQuery := None\<rparr>
         | None \<Rightarrow> emitError err (emitAuthenticationError err c))"

text \<open>
  \<open>_handleQueryResponse\<close>, with the handlers of the query that built \<open>this.currentQuery\<close>.
  An exception of \<open>parseRowDescription\<close> or \<open>parseDataRow\<close> leaves the handler of the socket.
\<close>

definition updateClosure :: "nat \<Rightarrow> (closure \<Rightarrow> closure) \<Rightarrow> conn \<Rightarrow> conn" where
  "updateClosure j f c = c\<lparr>closures := (closures c)[j := f (closures c ! j)]\<rparr>"

definition handleQueryResponse :: "platform \<Rightarrow> byte \<Rightarrow> buffer \<Rightarrow> conn \<Rightarrow> conn" where
  "handleQueryResponse P messageType message c =
     (case currentQuery c of
        None \<Rightarrow> c
      | Some j \<Rightarrow>
          if messageType = 0x54
          then (case parseRowDescription P message of
                  Inl e \<Rightarrow> c\<lparr>crashed := True\<rparr>
                | Inr fs \<Rightarrow> updateClosure j (\<lambda>cl. cl\<lparr>fieldsVar := Some fs\<rparr>) c)
          else if messageType = 0x44
          then (case parseDataRow P message (fieldsVar (closures c ! j)) of
                  Inl e \<Rightarrow> c\<lparr>crashed := True\<rparr>
                | Inr r \<Rightarrow> updateClosure j (\<lambda>cl. cl\<lparr>results := results cl @ [r]\<rparr>) c)
          else if messageType = 0x43
          then updateClosure j (\<lambda>cl. cl\<lparr>commandCompleteMessage := Some message\<rparr>) c
          else if messageType = 0x49
          then updateClosure j
                 (\<lambda>cl. cl\<lparr>commandCompleteMessage := Some [0x45, 0x4D, 0x50, 0x54, 0x59, 0]\<rparr>) c
          else c)"

text \<open>
  \<open>_processMessage\<close>, by the type byte: \<open>R\<close>, \<open>K\<close>, \<open>Z\<close>, \<open>E\<close>, then \<open>N\<close> and \<open>S\<close>, which only
  log, then \<open>T\<close>, \<open>D\<close>, \<open>C\<close>, \<open>I\<close> and \<open>n\<close>. Once an exception has ended the process nothing
  is dispatched.
\<close>

definition processMessage :: "platform \<Rightarrow> conn \<Rightarrow> buffer \<Rightarrow> conn" where
  "processMessage P c message =
     (if crashed c \<or> length message < 5 then c
      else (let messageType = message ! 0;
                messageBody = drop 5 message
            in if messageType = 0x52 then handleAuthenticationMessage P messageBody c
               else if messageType = 0x4B then handleBackendKeyData messageBody c
               else if messageType = 0x5A then handleReadyForQuery P messageBody c
               else if messageType = 0x45 then handleErrorResponse P messageBody c
               else if messageType = 0x4E \<or> messageType = 0x53 then c
               else if messageType \<in> {0x54, 0x44, 0x43, 0x49, 0x6E}
               then handleQueryResponse P messageType messageBody c
               else c))"

subsection \<open>The methods and the events\<close>

text \<open>
  A call of \<open>query\<close> returns a promise that is already rejected, or a pending promise of the
  query with the given index.
\<close>

datatype call_result = Failed conn_error | Pending nat

text \<open>
  \<open>query\<close>. On a connection without a socket \<open>this.socket.write\<close> throws inside the executor
  of the promise, after \<open>this.currentQuery\<close> and the timer have been set.
\<close>

definition query :: "conn \<Rightarrow> string \<Rightarrow> conn \<times> call_result" where
  "query c sql =
     (if \<not> readyForQuery c
      then (c, Failed (ErrorMessage ''Connection not ready for query''))
      else (let k = length (closures c);
                c1 = c\<lparr>readyForQuery := False,
                       closures := closures c @
                         [\<lparr>results = [], fieldsVar = None, commandCompleteMessage = None\<rparr>],
                       currentQuery := Some k,
                       timers := timers c @ [k]\<rparr>
            in if \<not> socket c1
               then (record_obs (Settled (QueryPromise k) (Rejected (JsException TypeError))) c1,
                     Failed (JsException TypeError))
               else ((socketWrite (QueryPacket sql) c1)
                       \<lparr>readyListeners := readyListeners c1 @ [QueryOnReady k],
                        errorListeners := errorListeners c1 @ [QueryOnError k]\<rparr>,
                     Pending k)))"

text \<open>The callback of the timer of the \<open>k\<close>-th query, 30 seconds after the call.\<close>

definition queryTimeout :: "nat \<Rightarrow> conn \<Rightarrow> conn" where
  "queryTimeout k c =
     (let c1 = c\<lparr>timers := remove1 k (timers c)\<rparr>
      in case currentQuery c1 of
           Some j \<Rightarrow> currentQueryReject j (ErrorMessage ''Query timeout'') c1
         | None \<Rightarrow> c1)"

text \<open>\<open>connect\<close> creates the socket and registers its listeners.\<close>

definition connect :: "conn \<Rightarrow> conn" where
  "connect c =
     c\<lparr>socket := True,
       errorListeners := errorListeners c @ [ConnectOnError],
       readyListeners := readyListeners c @ [ConnectOnReady],
       authErrorListener := True\<rparr>"

definition close :: "conn \<Rightarrow> conn" where
  "close c =
     (if socket c \<and> state c \<noteq> ''disconnected''
      then (record_obs Ended (socketWrite TerminationPacket c))\<lparr>closeListeners := closeListeners c + 1\<rparr>
      else record_obs (Settled ClosePromise ResolvedClose) c)"

text \<open>The handler of the socket's \<open>data\<close> event, on the connection.\<close>

definition socketData :: "platform \<Rightarrow> buffer \<Rightarrow> conn \<Rightarrow> conn" where
  "socketData P chunk c =
     (let r = onData (processMessage P) (buffer c, c) chunk
      in (snd r)\<lparr>buffer := fst r\<rparr>)"

text \<open>
  The socket's \<open>close\<close> event: the listener of \<open>connect\<close>, then the listeners that calls of
  \<open>close\<close> have registered.
\<close>

definition socketClosed :: "conn \<Rightarrow> conn" where
  "socketClosed c =
     ((record_obs (Settled ClosePromise ResolvedClose) ^^ closeListeners c)
        (c\<lparr>state := ''disconnected''\<rparr>))\<lparr>closeListeners := 0\<rparr>"

text \<open>
  What can happen to a connection: a call of a method, an event of the socket, a timer.
  One connection object has one socket: a second call of \<open>connect\<close> is outside the model,
  and so are events of a socket that does not exist and the callback of a timer that is not
  pending; all of these leave the connection as it is. So does every event once the
  process has ended.
\<close>

datatype event =
    CallConnect
  | CallQuery string
  | CallClose
  | TcpConnected
  | SocketData buffer
  | SocketError string
  | SocketClosed
  | SocketEnded
  | TimerFired nat

definition step :: "platform \<Rightarrow> conn \<Rightarrow> event \<Rightarrow> conn" where
  "step P c ev =
     (if crashed c then c
      else (case ev of
              CallConnect \<Rightarrow> if socket c then c else connect c
            | CallQuery sql \<Rightarrow> fst (query c sql)
            | CallClose \<Rightarrow> close c
            | TcpConnected \<Rightarrow>
                if socket c then socketWrite StartupPacket (c\<lparr>state := ''connected''\<rparr>) else c
            | SocketData chunk \<Rightarrow> if socket c then socketData P chunk c else c
            | SocketError e \<Rightarrow> if socket c then emitError (ErrorMessage e) c else c
            | SocketClosed \<Rightarrow> if socket c then socketClosed c else c
            | SocketEnded \<Rightarrow> if socket c then c\<lparr>state := ''disconnected''\<rparr> else c
            | TimerFired k \<Rightarrow> if k \<in> set (timers c) then queryTimeout k c else c))"

definition run :: "platform \<Rightarrow> conn \<Rightarrow> event list \<Rightarrow> conn" where
  "run P c evs = foldl (step P) c evs"

text \<open>
  Reading the history: a query is outstanding when a Query packet has been written and,
  since then, no ReadyForQuery message has been handled and no promise of a query has been
  rejected.
\<close>

definition outstandingAfter :: "bool \<Rightarrow> observation \<Rightarrow> bool" where
  "outstandingAfter b ob =
     (case ob of
        Wrote (QueryPacket _) \<Rightarrow> True
      | ReadyForQueryReceived _ \<Rightarrow> False
      | Settled (QueryPromise _) (Rejected _) \<Rightarrow> False
      | _ \<Rightarrow> b)"

definition queryOutstanding :: "observation list \<Rightarrow> bool" where
  "queryOutstanding h = foldl outstandingAfter False h"

text \<open>
  A connection for the user \<open>postgres\<close>, an ErrorResponse of the server with the fields
  \<open>S = ERROR\<close>, \<open>C = 42P01\<close> and \<open>M = relation does not exist\<close>, and three runs: a query
  has been sent; a query has been sent and the ErrorResponse has arrived; a query has been
  sent and its timer has fired.
\<close>

definition demoConn :: conn where
  "demoConn = newConnection ''postgres'' ''postgres''"

definition demoError :: buffer where
  "demoError =
     [69, 0, 0, 0, 44, 83, 69, 82, 82, 79, 82, 0, 67, 52, 50, 80, 48, 49, 0, 77, 114, 101,
      108, 97, 116, 105, 111, 110, 32, 100, 111, 101, 115, 32, 110, 111, 116, 32, 101, 120,
      105, 115, 116, 0, 0]"

definition demoBusy :: conn where
  "demoBusy = run tablePlatform demoConn [CallConnect, TcpConnected, CallQuery ''SELECT 1'']"

definition demoAfterError :: conn where
  "demoAfterError =
     run tablePlatform demoConn
       [CallConnect, TcpConnected, CallQuery ''SELECT * FROM nope'', SocketData demoError]"

definition demoAfterTimeout :: conn where
  "demoAfterTimeout =
     run tablePlatform demoConn
       [CallConnect, TcpConnected, CallQuery ''SELECT pg_sleep(60)'', TimerFired 0]"

text \<open>Whether a history holds a ReadyForQuery message.\<close>

definition isReadyForQueryReceived :: "observation \<Rightarrow> bool" where
  "isReadyForQueryReceived ob = (case ob of ReadyForQueryReceived _ \<Rightarrow> True | _ \<Rightarrow> False)"

definition receivedReadyForQuery :: "observation list \<Rightarrow> bool" where
  "receivedReadyForQuery h = list_ex isReadyForQueryReceived h"

definition rejectedWith :: "nat \<Rightarrow> string \<Rightarrow> observation \<Rightarrow> bool" where
  "rejectedWith k msg ob =
     (case ob of
        Settled (QueryPromise j) (Rejected (ErrorMessage m)) \<Rightarrow> j = k \<and> m = msg
      | _ \<Rightarrow> False)"

definition resolvedQuery :: "nat \<Rightarrow> observation \<Rightarrow> bool" where
  "resolvedQuery k ob =
     (case ob of Settled (QueryPromise j) (ResolvedResult _) \<Rightarrow> j = k | _ \<Rightarrow> False)"

definition wroteQuery :: "string \<Rightarrow> observation \<Rightarrow> bool" where
  "wroteQuery sql ob = (case ob of Wrote (QueryPacket s) \<Rightarrow> s = sql | _ \<Rightarrow> False)"

text \<open>
  The invariant of the flag: while a query is outstanding in the history, \<open>readyForQuery\<close>
  is false. A step is calm when it leaves nothing outstanding, or neither sets the flag nor
  makes a query outstanding.
\<close>

definition inv_ready :: "conn \<Rightarrow> bool" where
  "inv_ready c = (queryOutstanding (history c) \<longrightarrow> \<not> readyForQuery c)"

definition calm :: "conn \<Rightarrow> conn \<Rightarrow> bool" where
  "calm c c' =
     (\<not> queryOutstanding (history c') \<or>
      ((readyForQuery c' \<longrightarrow> readyForQuery c) \<and>
       (queryOutstanding (history c') \<longrightarrow> queryOutstanding (history c))))"

section \<open>Properties of the SCRAM parameter parser\<close>

text \<open>
  Claim C5. \<open>parseSCRAMParams\<close> should split each token on the first \<open>=\<close> only and keep a
  value that contains \<open>=\<close> in full. The code calls \<open>pair.split("=", 2)\<close>, which splits at
  every \<open>=\<close> and keeps the first two pieces: on the token \<open>v=abc=def\<close> the stored value
  is \<open>abc\<close>, and \<open>=def\<close> is lost.
\<close>

theorem parseSCRAMParams_cuts_value:
  "parseSCRAMParams ''v=abc=def'' ''v'' = Some ''abc''"
  by (simp add: parseSCRAMParams_def scramPair_def split_limit_def setStringProp_def)

section \<open>Properties of the SCRAM exchange\<close>

lemma xorLoop_map2:
  "length cs = length ck \<Longrightarrow> xorLoop ck cs = map2 (XOR) ck cs"
  by (rule nth_equalityI) (simp_all add: xorLoop_def)

lemma byte_char: "char_of (unat (of_nat (of_char c) :: byte)) = c"
proof -
  have "(of_char c :: nat) < 256" by simp
  then have "unat (of_nat (of_char c) :: byte) = of_char c"
    by (simp add: unat_of_nat)
  then show ?thesis by simp
qed

lemma ascii_roundtrip: "asciiDecode (asciiBytes s) = s"
  by (simp add: asciiDecode_def asciiBytes_def o_def byte_char)

lemma continue_success:
  assumes len: "\<forall>k d. length (hmacSha256 P k d) = 32"
    and r: "parseSCRAMParams (toStringUtf8 P message) ''r'' = Some r" "r \<noteq> []"
    and pre: "startsWith r (toStringBase64 rnd)"
    and s: "parseSCRAMParams (toStringUtf8 P message) ''s'' = Some s" "s \<noteq> []"
    and i: "parseSCRAMParams (toStringUtf8 P message) ''i'' = Some i" "i \<noteq> []"
    and sp: "pbkdf2Sha256 P (normalizeNFKC P password) (base64Decode P s) (parseInt10 i) 32 = Some sp"
  shows "processSASLContinue P (startSCRAMSHA256 st0 user rnd) message password =
           Returned
             (stateOf (processSASLContinue P (startSCRAMSHA256 st0 user rnd) message password)) None
       \<and> serverNonce (stateOf (processSASLContinue P (startSCRAMSHA256 st0 user rnd) message password))
           = Some r
       \<and> saltedPassword (stateOf (processSASLContinue P (startSCRAMSHA256 st0 user rnd) message password))
           = Some sp
       \<and> authMessage (stateOf (processSASLContinue P (startSCRAMSHA256 st0 user rnd) message password))
           = Some (spec_authMessage user (toStringBase64 rnd) (toStringUtf8 P message) r)
       \<and> clientFinalMessage (stateOf (processSASLContinue P (startSCRAMSHA256 st0 user rnd) message password))
           = Some (''c=biws,r='' @ r @ '',p='' @
                   toStringBase64 (spec_clientProof P sp
                     (spec_authMessage user (toStringBase64 rnd) (toStringUtf8 P message) r)))"
proof -
  have x: "xorLoop (hmacSha256 P a b) (hmacSha256 P c d) =
           map2 (XOR) (hmacSha256 P a b) (hmacSha256 P c d)" for a b c d
    using len by (simp add: xorLoop_map2)
  show ?thesis
    using r s i sp pre
    by (simp add: processSASLContinue_def startSCRAMSHA256_def Let_def
        toStringOrNull_def joinElem_def spec_authMessage_def spec_clientProof_def x)
qed

lemma params_rfc:
  "parseSCRAMParams rfcServerFirst ''r'' = Some ''rOprNGfwEbeRWgbNEkqO%hvYDpWUa2RaTCAfuxFIlj)hNlF$k0''"
  "parseSCRAMParams rfcServerFirst ''s'' = Some ''W22ZaJ0SNY7soEsUEjb6gQ''"
  "parseSCRAMParams rfcServerFirst ''i'' = Some ''4096''"
  by (simp_all add: rfcServerFirst_def parseSCRAMParams_def scramPair_def split_limit_def
      setStringProp_def)

lemma params_rfc_final:
  "parseSCRAMParams rfcServerFinal ''v'' = Some ''6rriTRBi23WpRR/wtup+mMhUZUn/dB5nLTJRsjl95G4''"
  by (simp add: rfcServerFinal_def parseSCRAMParams_def scramPair_def split_limit_def
      setStringProp_def)

lemma parseInt_4096: "parseInt10 ''4096'' = Num 4096"
  by (simp add: parseInt10_def isWhiteSpace_def isDigit_def digitsValue_def toNumber_def)

text \<open>The proof of the example: the XOR of the client key and the client signature.\<close>

lemma rfc_xor:
  "xorLoop rfcClientKey rfcClientSignature =
     [116, 124, 219, 101, 170, 86, 34, 78, 35, 82, 19, 126, 82, 215, 189, 202, 214, 160, 247,
      56, 223, 48, 120, 44, 170, 105, 162, 207, 176, 39, 117, 84]"
  by (simp add: xorLoop_def rfcClientKey_def rfcClientSignature_def upt_rec [of _ "numeral _"])

lemma rfc_continue:
  assumes "agreesWithRFC7677 P"
  shows "processSASLContinue P rfcState (asciiBytes rfcServerFirst) ''pencil'' =
           Returned (stateOf (processSASLContinue P rfcState (asciiBytes rfcServerFirst) ''pencil'')) None
       \<and> clientFinalMessage (stateOf (processSASLContinue P rfcState (asciiBytes rfcServerFirst) ''pencil''))
           = Some rfcClientFinal
       \<and> saltedPassword (stateOf (processSASLContinue P rfcState (asciiBytes rfcServerFirst) ''pencil''))
           = Some rfcSaltedPassword
       \<and> authMessage (stateOf (processSASLContinue P rfcState (asciiBytes rfcServerFirst) ''pencil''))
           = Some rfcAuthMessage"
  using assms
  apply (simp add: agreesWithRFC7677_def processSASLContinue_def Let_def params_rfc parseInt_4096
      rfcState_def toStringOrNull_def joinElem_def startsWith_def rfcClientNonce_def)
  apply (simp add: rfcAuthMessage_def rfcServerFirst_def rfc_xor rfcClientFinal_def b64_def
      base64Alphabet_def)
  done

lemma rfc_final:
  assumes "agreesWithRFC7677 P"
    and "saltedPassword st = Some rfcSaltedPassword"
    and "authMessage st = Some rfcAuthMessage"
  shows "processSASLFinal P st (asciiBytes rfcServerFinal) =
           Returned (stateOf (processSASLFinal P st (asciiBytes rfcServerFinal))) None"
  using assms
  by (simp add: agreesWithRFC7677_def processSASLFinal_def Let_def params_rfc_final startsWith_def)
     (simp add: rfcServerFinal_def)

lemma table_agrees: "agreesWithRFC7677 tablePlatform"
  apply (simp add: agreesWithRFC7677_def tablePlatform_def ascii_roundtrip)
  apply (simp add: rfcSaltedPassword_def rfcClientKey_def rfcStoredKey_def rfcServerKey_def
      rfcAuthMessage_def)
  done

lemma table_len: "\<forall>k d. length (hmacSha256 tablePlatform k d) = 32"
  by (simp add: tablePlatform_def rfcClientKey_def rfcClientSignature_def rfcServerKey_def
      rfcServerSignature_def)

lemma final_verdict:
  assumes "saltedPassword st = Some sp" "authMessage st = Some auth"
    and "\<not> startsWith (toStringUtf8 P final) ''e=''"
    and "parseSCRAMParams (toStringUtf8 P final) ''v'' = Some v" "v \<noteq> []"
  shows "processSASLFinal P st final =
           Returned (st\<lparr>serverFinalMessage := Some (toStringUtf8 P final)\<rparr>)
             (if base64Decode P v = spec_serverSignature P sp auth then None
              else Some ''Server signature verification failed'')"
  using assms
  by (simp add: processSASLFinal_def Let_def spec_serverSignature_def)

text \<open>
  Claim C1. On a platform whose HMAC digests have 32 bytes, after \<open>startSCRAMSHA256\<close> for
  any user and any random bytes, and for any password and any server-first message that
  carries a non-empty \<open>r\<close> beginning with the client nonce, a non-empty \<open>s\<close> and a non-empty
  \<open>i\<close> whose iteration count PBKDF2 accepts, \<open>processSASLContinue\<close> returns without error,
  with \<open>saltedPassword\<close> the PBKDF2 value of the normalised password, \<open>authMessage\<close> the
  client-first-bare, server-first and \<open>c=biws,r=serverNonce\<close> joined by commas, and
  \<open>clientFinalMessage\<close> equal to \<open>c=biws,r=serverNonce,p=\<close> followed by the base64 of the
  byte-wise XOR of the client key and the client signature; \<open>processSASLFinal\<close> then accepts
  a server-final message with a non-empty \<open>v\<close> exactly when \<open>v\<close> decodes to the HMAC of the
  authentication message under the server key, and rejects every other \<open>v\<close> with
  \<open>Server signature verification failed\<close>. On a platform that agrees with the example of
  RFC 7677, the client-final message is the one of the RFC, the expected server signature
  is the one of the RFC, the server-final message of the RFC is accepted, and a server-final
  message is accepted exactly when its \<open>v\<close> decodes to the bytes of that signature.
\<close>

theorem scram_client_proof:
  assumes "\<forall>k d. length (hmacSha256 P k d) = 32"
  shows "(parseSCRAMParams (toStringUtf8 P message) ''r'' = Some r \<and> r \<noteq> [] \<and>
          startsWith r (toStringBase64 rnd) \<and>
          parseSCRAMParams (toStringUtf8 P message) ''s'' = Some s \<and> s \<noteq> [] \<and>
          parseSCRAMParams (toStringUtf8 P message) ''i'' = Some i \<and> i \<noteq> [] \<and>
          pbkdf2Sha256 P (normalizeNFKC P password) (base64Decode P s) (parseInt10 i) 32 = Some sp
          \<longrightarrow>
          (let res = processSASLContinue P (startSCRAMSHA256 st0 user rnd) message password;
               auth = spec_authMessage user (toStringBase64 rnd) (toStringUtf8 P message) r
           in res = Returned (stateOf res) None \<and>
              serverNonce (stateOf res) = Some r \<and>
              saltedPassword (stateOf res) = Some sp \<and>
              authMessage (stateOf res) = Some auth \<and>
              clientFinalMessage (stateOf res) =
                Some (''c=biws,r='' @ r @ '',p='' @ toStringBase64 (spec_clientProof P sp auth)) \<and>
              (\<not> startsWith (toStringUtf8 P final) ''e='' \<and>
               parseSCRAMParams (toStringUtf8 P final) ''v'' = Some v \<and> v \<noteq> [] \<longrightarrow>
               processSASLFinal P (stateOf res) final =
                 Returned ((stateOf res)\<lparr>serverFinalMessage := Some (toStringUtf8 P final)\<rparr>)
                   (if base64Decode P v = spec_serverSignature P sp auth then None
                    else Some ''Server signature verification failed''))))
       \<and> (agreesWithRFC7677 P \<longrightarrow>
          (let res = processSASLContinue P rfcState (asciiBytes rfcServerFirst) ''pencil'';
               fin = processSASLFinal P (stateOf res) (asciiBytes rfcServerFinal)
           in res = Returned (stateOf res) None \<and>
              clientFinalMessage (stateOf res) = Some rfcClientFinal \<and>
              saltedPassword (stateOf res) = Some rfcSaltedPassword \<and>
              authMessage (stateOf res) = Some rfcAuthMessage \<and>
              spec_serverSignature P rfcSaltedPassword rfcAuthMessage = rfcServerSignature \<and>
              fin = Returned (stateOf fin) None \<and>
              (\<not> startsWith (toStringUtf8 P final) ''e='' \<and>
               parseSCRAMParams (toStringUtf8 P final) ''v'' = Some v \<and> v \<noteq> [] \<longrightarrow>
               processSASLFinal P (stateOf res) final =
                 Returned ((stateOf res)\<lparr>serverFinalMessage := Some (toStringUtf8 P final)\<rparr>)
                   (if base64Decode P v = rfcServerSignature then None
                    else Some ''Server signature verification failed''))))"
proof (intro conjI impI)
  assume h: "parseSCRAMParams (toStringUtf8 P message) ''r'' = Some r \<and> r \<noteq> [] \<and>
          startsWith r (toStringBase64 rnd) \<and>
          parseSCRAMParams (toStringUtf8 P message) ''s'' = Some s \<and> s \<noteq> [] \<and>
          parseSCRAMParams (toStringUtf8 P message) ''i'' = Some i \<and> i \<noteq> [] \<and>
          pbkdf2Sha256 P (normalizeNFKC P password) (base64Decode P s) (parseInt10 i) 32 = Some sp"
  let ?res = "processSASLContinue P (startSCRAMSHA256 st0 user rnd) message password"
  let ?auth = "spec_authMessage user (toStringBase64 rnd) (toStringUtf8 P message) r"
  note c = continue_success [OF assms, of message r rnd s i password sp st0 user]
  have c5: "?res = Returned (stateOf ?res) None \<and>
      serverNonce (stateOf ?res) = Some r \<and>
      saltedPassword (stateOf ?res) = Some sp \<and>
      authMessage (stateOf ?res) = Some ?auth \<and>
      clientFinalMessage (stateOf ?res) =
        Some (''c=biws,r='' @ r @ '',p='' @ toStringBase64 (spec_clientProof P sp ?auth))"
    using c h by blast
  have f: "\<not> startsWith (toStringUtf8 P final) ''e='' \<and>
        parseSCRAMParams (toStringUtf8 P final) ''v'' = Some v \<and> v \<noteq> [] \<longrightarrow>
        processSASLFinal P (stateOf ?res) final =
          Returned ((stateOf ?res)\<lparr>serverFinalMessage := Some (toStringUtf8 P final)\<rparr>)
            (if base64Decode P v = spec_serverSignature P sp ?auth then None
             else Some ''Server signature verification failed'')"
    using final_verdict [of "stateOf ?res" sp ?auth P final v] c5 by blast
  show "let res = ?res; auth = ?auth
        in res = Returned (stateOf res) None \<and>
           serverNonce (stateOf res) = Some r \<and>
           saltedPassword (stateOf res) = Some sp \<and>
           authMessage (stateOf res) = Some auth \<and>
           clientFinalMessage (stateOf res) =
             Some (''c=biws,r='' @ r @ '',p='' @ toStringBase64 (spec_clientProof P sp auth)) \<and>
           (\<not> startsWith (toStringUtf8 P final) ''e='' \<and>
            parseSCRAMParams (toStringUtf8 P final) ''v'' = Some v \<and> v \<noteq> [] \<longrightarrow>
            processSASLFinal P (stateOf res) final =
              Returned ((stateOf res)\<lparr>serverFinalMessage := Some (toStringUtf8 P final)\<rparr>)
                (if base64Decode P v = spec_serverSignature P sp auth then None
                 else Some ''Server signature verification failed''))"
    unfolding Let_def using c5 f by blast
next
  assume a: "agreesWithRFC7677 P"
  let ?res = "processSASLContinue P rfcState (asciiBytes rfcServerFirst) ''pencil''"
  note c = rfc_continue [OF a]
  have sig: "spec_serverSignature P rfcSaltedPassword rfcAuthMessage = rfcServerSignature"
    using a by (simp add: agreesWithRFC7677_def spec_serverSignature_def)
  have f: "processSASLFinal P (stateOf ?res) (asciiBytes rfcServerFinal) =
           Returned (stateOf (processSASLFinal P (stateOf ?res) (asciiBytes rfcServerFinal))) None"
    using rfc_final [OF a] c by blast
  have g: "\<not> startsWith (toStringUtf8 P final) ''e='' \<and>
        parseSCRAMParams (toStringUtf8 P final) ''v'' = Some v \<and> v \<noteq> [] \<longrightarrow>
        processSASLFinal P (stateOf ?res) final =
          Returned ((stateOf ?res)\<lparr>serverFinalMessage := Some (toStringUtf8 P final)\<rparr>)
            (if base64Decode P v = rfcServerSignature then None
             else Some ''Server signature verification failed'')"
    using final_verdict [of "stateOf ?res" rfcSaltedPassword rfcAuthMessage P final v] c
    unfolding sig by blast
  show "let res = ?res;
            fin = processSASLFinal P (stateOf res) (asciiBytes rfcServerFinal)
        in res = Returned (stateOf res) None \<and>
           clientFinalMessage (stateOf res) = Some rfcClientFinal \<and>
           saltedPassword (stateOf res) = Some rfcSaltedPassword \<and>
           authMessage (stateOf res) = Some rfcAuthMessage \<and>
           spec_serverSignature P rfcSaltedPassword rfcAuthMessage = rfcServerSignature \<and>
           fin = Returned (stateOf fin) None \<and>
           (\<not> startsWith (toStringUtf8 P final) ''e='' \<and>
            parseSCRAMParams (toStringUtf8 P final) ''v'' = Some v \<and> v \<noteq> [] \<longrightarrow>
            processSASLFinal P (stateOf res) final =
              Returned ((stateOf res)\<lparr>serverFinalMessage := Some (toStringUtf8 P final)\<rparr>)
                (if base64Decode P v = rfcServerSignature then None
                 else Some ''Server signature verification failed''))"
    unfolding Let_def using c f g sig by blast
qed

lemmas scram_eval =
  parseSCRAMParams_def scramPair_def split_limit_def setStringProp_def
  startsWith_def toStringOrNull_def joinElem_def
  parseInt10_def isWhiteSpace_def isDigit_def digitsValue_def toNumber_def
  b64_def base64Alphabet_def saslName_def

lemma demo_nonce: "toStringBase64 demoRandom = ''AQIDBAUGBwgJCgsMDQ4PEBES''"
  by (simp add: demoRandom_def b64_def base64Alphabet_def)

lemma demo_state:
  "demoState = initialScram\<lparr>clientNonce := Some ''AQIDBAUGBwgJCgsMDQ4PEBES'',
     clientFirstMessageBare := Some ''n=user,r=AQIDBAUGBwgJCgsMDQ4PEBES'',
     clientFirstMessage := Some ''n,,n=user,r=AQIDBAUGBwgJCgsMDQ4PEBES''\<rparr>"
  by (simp add: demoState_def startSCRAMSHA256_def demo_nonce saslName_def Let_def)

lemma demo_params:
  "parseSCRAMParams demoServerFirst ''r'' = Some ''AQIDBAUGBwgJCgsMDQ4PEBESsrv''"
  "parseSCRAMParams demoServerFirst ''s'' = Some ''QUJD''"
  "parseSCRAMParams demoServerFirst ''i'' = Some ''4096''"
  "parseSCRAMParams demoWrongNonce ''r'' = Some ''zzz''"
  "parseSCRAMParams demoNoSalt ''s'' = None"
  by (simp_all add: demoServerFirst_def demoWrongNonce_def demoNoSalt_def scram_eval)

lemma zeros32:
  "replicate 32 (0::byte) = [0, 0, 0, 0, 0, 0, 0, 0, 0, 0, 0, 0, 0, 0, 0, 0,
                             0, 0, 0, 0, 0, 0, 0, 0, 0, 0, 0, 0, 0, 0, 0, 0]"
  by (simp add: numeral_eq_Suc)

lemma table_simps:
  "toStringUtf8 tablePlatform (asciiBytes s) = s"
  "normalizeNFKC tablePlatform s = s"
  "base64Decode tablePlatform ''QUJD'' = []"
  "pbkdf2Sha256 tablePlatform ''secret'' [] (Num 4096) 32 = Some (replicate 32 0)"
  "hmacSha256 tablePlatform (replicate 32 0) d = replicate 32 0"
  "sha256 tablePlatform (replicate 32 0) = replicate 32 0"
  by (simp_all add: tablePlatform_def ascii_roundtrip rfcSalt_def rfcSaltedPassword_def
      rfcStoredKey_def rfcClientKey_def rfcServerKey_def zeros32)

lemma zeros_b64:
  "toStringBase64 (map2 (XOR) (replicate 32 0) (replicate 32 0)) = ''AAAAAAAAAAAAAAAAAAAAAAAAAAAAAAAAAAAAAAAAAAA=''"
  by (simp add: b64_def base64Alphabet_def zeros32)

text \<open>
  The theorem for claim C1 at the table platform: the demonstration exchange satisfies the
  hypotheses of its first part, the table platform agrees with RFC 7677, the server-final
  message of the RFC is accepted, and one whose \<open>v\<close> decodes to other bytes is rejected.
\<close>

theorem scram_client_proof_witness:
  "(\<forall>k d. length (hmacSha256 tablePlatform k d) = 32) \<and>
   parseSCRAMParams (toStringUtf8 tablePlatform (asciiBytes demoServerFirst)) ''r''
     = Some ''AQIDBAUGBwgJCgsMDQ4PEBESsrv'' \<and>
   startsWith ''AQIDBAUGBwgJCgsMDQ4PEBESsrv'' (toStringBase64 demoRandom) \<and>
   parseSCRAMParams (toStringUtf8 tablePlatform (asciiBytes demoServerFirst)) ''s'' = Some ''QUJD'' \<and>
   parseSCRAMParams (toStringUtf8 tablePlatform (asciiBytes demoServerFirst)) ''i'' = Some ''4096'' \<and>
   pbkdf2Sha256 tablePlatform (normalizeNFKC tablePlatform ''secret'')
     (base64Decode tablePlatform ''QUJD'') (parseInt10 ''4096'') 32 = Some (replicate 32 0) \<and>
   clientFinalMessage (stateOf (processSASLContinue tablePlatform
       (startSCRAMSHA256 initialScram ''user'' demoRandom) (asciiBytes demoServerFirst) ''secret''))
     = Some ''c=biws,r=AQIDBAUGBwgJCgsMDQ4PEBESsrv,p=AAAAAAAAAAAAAAAAAAAAAAAAAAAAAAAAAAAAAAAAAAA='' \<and>
   agreesWithRFC7677 tablePlatform \<and>
   clientFinalMessage (stateOf (processSASLContinue tablePlatform rfcState
       (asciiBytes rfcServerFirst) ''pencil'')) = Some rfcClientFinal \<and>
   errorOf (processSASLFinal tablePlatform
      (stateOf (processSASLContinue tablePlatform rfcState (asciiBytes rfcServerFirst) ''pencil''))
      (asciiBytes rfcServerFinal)) = None \<and>
   parseSCRAMParams (toStringUtf8 tablePlatform (asciiBytes demoWrongFinal)) ''v''
     = Some ''W22ZaJ0SNY7soEsUEjb6gQ'' \<and>
   base64Decode tablePlatform ''W22ZaJ0SNY7soEsUEjb6gQ'' \<noteq> rfcServerSignature \<and>
   errorOf (processSASLFinal tablePlatform
      (stateOf (processSASLContinue tablePlatform rfcState (asciiBytes rfcServerFirst) ''pencil''))
      (asciiBytes demoWrongFinal)) = Some ''Server signature verification failed''"
proof -
  let ?rfc = "stateOf (processSASLContinue tablePlatform rfcState (asciiBytes rfcServerFirst)
    ''pencil'')"
  have h: "parseSCRAMParams (toStringUtf8 tablePlatform (asciiBytes demoServerFirst)) ''r''
       = Some ''AQIDBAUGBwgJCgsMDQ4PEBESsrv'' \<and> ''AQIDBAUGBwgJCgsMDQ4PEBESsrv'' \<noteq> [] \<and>
     startsWith ''AQIDBAUGBwgJCgsMDQ4PEBESsrv'' (toStringBase64 demoRandom) \<and>
     parseSCRAMParams (toStringUtf8 tablePlatform (asciiBytes demoServerFirst)) ''s'' = Some ''QUJD'' \<and>
     ''QUJD'' \<noteq> [] \<and>
     parseSCRAMParams (toStringUtf8 tablePlatform (asciiBytes demoServerFirst)) ''i'' = Some ''4096'' \<and>
     ''4096'' \<noteq> [] \<and>
     pbkdf2Sha256 tablePlatform (normalizeNFKC tablePlatform ''secret'')
       (base64Decode tablePlatform ''QUJD'') (parseInt10 ''4096'') 32 = Some (replicate 32 0)"
    by (simp add: table_simps demo_params demo_nonce parseInt_4096 startsWith_def)
  have w: "\<not> startsWith (toStringUtf8 tablePlatform (asciiBytes demoWrongFinal)) ''e='' \<and>
     parseSCRAMParams (toStringUtf8 tablePlatform (asciiBytes demoWrongFinal)) ''v''
       = Some ''W22ZaJ0SNY7soEsUEjb6gQ'' \<and> ''W22ZaJ0SNY7soEsUEjb6gQ'' \<noteq> []"
    by (simp add: table_simps demoWrongFinal_def startsWith_def scram_eval)
  have d: "base64Decode tablePlatform ''W22ZaJ0SNY7soEsUEjb6gQ'' \<noteq> rfcServerSignature"
    by (simp add: tablePlatform_def rfcSalt_def rfcServerSignature_def)
  have z: "toStringBase64 (spec_clientProof tablePlatform (replicate 32 0) a)
     = ''AAAAAAAAAAAAAAAAAAAAAAAAAAAAAAAAAAAAAAAAAAA=''" for a
    by (simp only: spec_clientProof_def Let_def table_simps zeros_b64)
  note t = scram_client_proof [OF table_len, where message = "asciiBytes demoServerFirst"
      and r = "''AQIDBAUGBwgJCgsMDQ4PEBESsrv''" and rnd = demoRandom and s = "''QUJD''"
      and i = "''4096''" and password = "''secret''" and sp = "replicate 32 0"
      and ?st0.0 = initialScram and user = "''user''" and final = "asciiBytes demoWrongFinal"
      and v = "''W22ZaJ0SNY7soEsUEjb6gQ''"]
  from t h z have c1: "clientFinalMessage (stateOf (processSASLContinue tablePlatform
       (startSCRAMSHA256 initialScram ''user'' demoRandom) (asciiBytes demoServerFirst) ''secret''))
     = Some ''c=biws,r=AQIDBAUGBwgJCgsMDQ4PEBESsrv,p=AAAAAAAAAAAAAAAAAAAAAAAAAAAAAAAAAAAAAAAAAAA=''"
    by (simp add: Let_def)
  from t table_agrees have c2: "clientFinalMessage ?rfc = Some rfcClientFinal"
    and c3: "processSASLFinal tablePlatform ?rfc (asciiBytes rfcServerFinal) =
      Returned (stateOf (processSASLFinal tablePlatform ?rfc (asciiBytes rfcServerFinal))) None"
    by (simp_all add: Let_def)
  from c3 have c4: "errorOf (processSASLFinal tablePlatform ?rfc (asciiBytes rfcServerFinal)) = None"
    by (metis scram_result.sel(3))
  from t table_agrees w d have c5: "processSASLFinal tablePlatform ?rfc (asciiBytes demoWrongFinal) =
      Returned (?rfc\<lparr>serverFinalMessage := Some (toStringUtf8 tablePlatform
        (asciiBytes demoWrongFinal))\<rparr>) (Some ''Server signature verification failed'')"
    by (simp add: Let_def)
  have c6: "errorOf (processSASLFinal tablePlatform ?rfc (asciiBytes demoWrongFinal))
      = Some ''Server signature verification failed''"
    by (simp add: c5)
  from h w d c1 c2 c4 c6 table_agrees table_len show ?thesis
    by simp
qed

text \<open>
  The guards of \<open>processSASLContinue\<close>, on the parameters as \<open>parseSCRAMParams\<close> stores
  them. For a state whose \<open>clientNonce\<close> is set, the call returns an error when no \<open>r\<close> is
  stored or the stored \<open>r\<close> does not begin with the client nonce, and when no \<open>s\<close> or no
  \<open>i\<close> is stored; when it returns without error, \<open>serverNonce\<close> is the stored \<open>r\<close>, and the
  client nonce is a prefix of it.
\<close>

lemma processSASLContinue_checks:
  assumes "clientNonce st = Some nonce"
  shows "(\<not> (\<exists>r. parseSCRAMParams (toStringUtf8 P message) ''r'' = Some r \<and> startsWith r nonce)
          \<longrightarrow> returnsError (processSASLContinue P st message password))
       \<and> (parseSCRAMParams (toStringUtf8 P message) ''s'' = None \<or>
          parseSCRAMParams (toStringUtf8 P message) ''i'' = None
          \<longrightarrow> returnsError (processSASLContinue P st message password))
       \<and> (\<forall>st'. processSASLContinue P st message password = Returned st' None
          \<longrightarrow> serverNonce st' = parseSCRAMParams (toStringUtf8 P message) ''r'' \<and>
              (\<exists>r. serverNonce st' = Some r \<and> take (length nonce) r = nonce))"
  using assms
  by (auto simp: processSASLContinue_def Let_def startsWith_def toStringOrNull_def
      returnsError_def split: option.splits if_splits)

lemma demo_continue:
  "processSASLContinue tablePlatform demoState (asciiBytes demoServerFirst) ''secret'' =
     Returned (stateOf (processSASLContinue tablePlatform demoState (asciiBytes demoServerFirst)
       ''secret'')) None"
  by (simp add: processSASLContinue_def Let_def table_simps demo_params demo_state
      toStringOrNull_def startsWith_def parseInt_4096)

lemma processSASLContinue_checks_demo:
  "clientNonce demoState = Some ''AQIDBAUGBwgJCgsMDQ4PEBES'' \<and>
   parseSCRAMParams (toStringUtf8 tablePlatform (asciiBytes demoWrongNonce)) ''r'' = Some ''zzz'' \<and>
   \<not> startsWith ''zzz'' ''AQIDBAUGBwgJCgsMDQ4PEBES'' \<and>
   returnsError (processSASLContinue tablePlatform demoState (asciiBytes demoWrongNonce) ''secret'') \<and>
   parseSCRAMParams (toStringUtf8 tablePlatform (asciiBytes demoNoSalt)) ''s'' = None \<and>
   returnsError (processSASLContinue tablePlatform demoState (asciiBytes demoNoSalt) ''secret'') \<and>
   errorOf (processSASLContinue tablePlatform demoState (asciiBytes demoServerFirst) ''secret'') = None \<and>
   serverNonce (stateOf (processSASLContinue tablePlatform demoState (asciiBytes demoServerFirst)
     ''secret'')) = Some ''AQIDBAUGBwgJCgsMDQ4PEBESsrv''"
proof -
  have n: "clientNonce demoState = Some ''AQIDBAUGBwgJCgsMDQ4PEBES''"
    by (simp add: demo_state)
  have e: "errorOf (processSASLContinue tablePlatform demoState (asciiBytes demoServerFirst)
      ''secret'') = None"
    using demo_continue by (metis scram_result.sel(3))
  from processSASLContinue_checks [OF n, of tablePlatform "asciiBytes demoWrongNonce" "''secret''"]
    processSASLContinue_checks [OF n, of tablePlatform "asciiBytes demoNoSalt" "''secret''"]
    processSASLContinue_checks [OF n, of tablePlatform "asciiBytes demoServerFirst" "''secret''"]
    demo_continue n e
  show ?thesis
    by (simp add: table_simps demo_params startsWith_def)
qed

text \<open>
  Claim C6. On success \<open>serverNonce\<close> is not always the \<open>r\<close> value of the server-first
  message. \<open>processSASLContinue\<close> reads the parameters from \<open>parseSCRAMParams\<close>, which cuts a
  value at its first \<open>=\<close> (claim C5): for a state whose client nonce is
  \<open>AQIDBAUGBwgJCgsMDQ4PEBES\<close> and a server-first message whose \<open>r\<close> is that nonce followed
  by \<open>=srv\<close>, the call returns without error, and \<open>serverNonce\<close> and the client-final message
  hold the client nonce alone, without \<open>=srv\<close>.
\<close>

theorem processSASLContinue_cuts_nonce:
  "clientNonce demoState = Some ''AQIDBAUGBwgJCgsMDQ4PEBES'' \<and>
   toStringUtf8 tablePlatform (asciiBytes demoNonceWithEquals)
     = ''r=AQIDBAUGBwgJCgsMDQ4PEBES=srv,s=QUJD,i=4096'' \<and>
   processSASLContinue tablePlatform demoState (asciiBytes demoNonceWithEquals) ''secret'' =
     Returned (stateOf (processSASLContinue tablePlatform demoState
       (asciiBytes demoNonceWithEquals) ''secret'')) None \<and>
   serverNonce (stateOf (processSASLContinue tablePlatform demoState
     (asciiBytes demoNonceWithEquals) ''secret'')) = Some ''AQIDBAUGBwgJCgsMDQ4PEBES'' \<and>
   clientFinalMessage (stateOf (processSASLContinue tablePlatform demoState
     (asciiBytes demoNonceWithEquals) ''secret''))
     = Some ''c=biws,r=AQIDBAUGBwgJCgsMDQ4PEBES,p=AAAAAAAAAAAAAAAAAAAAAAAAAAAAAAAAAAAAAAAAAAA=''"
proof -
  have p: "parseSCRAMParams demoNonceWithEquals ''r'' = Some ''AQIDBAUGBwgJCgsMDQ4PEBES''"
    "parseSCRAMParams demoNonceWithEquals ''s'' = Some ''QUJD''"
    "parseSCRAMParams demoNonceWithEquals ''i'' = Some ''4096''"
    by (simp_all add: demoNonceWithEquals_def scram_eval)
  have x: "toStringBase64 (xorLoop (replicate 32 0) (replicate 32 0))
      = ''AAAAAAAAAAAAAAAAAAAAAAAAAAAAAAAAAAAAAAAAAAA=''"
    using zeros_b64 by (simp add: xorLoop_map2)
  show ?thesis
    by (simp add: processSASLContinue_def Let_def table_simps p demo_state toStringOrNull_def
        startsWith_def parseInt_4096 x)
       (simp add: demoNonceWithEquals_def)
qed

text \<open>
  Claim C10. When \<open>processSASLContinue\<close> returns an error, the state it returns is the
  state before the call with \<open>serverFirstMessage\<close> replaced: \<open>salt\<close>, \<open>iterations\<close>,
  \<open>serverNonce\<close>, \<open>saltedPassword\<close>, \<open>authMessage\<close> and \<open>clientFinalMessage\<close> are unchanged.
\<close>

theorem processSASLContinue_error_frame:
  assumes "processSASLContinue P st message password = Returned st' (Some e)"
  shows "st' = st\<lparr>serverFirstMessage := Some (toStringUtf8 P message)\<rparr>
       \<and> salt st' = salt st \<and> iterations st' = iterations st
       \<and> serverNonce st' = serverNonce st \<and> saltedPassword st' = saltedPassword st
       \<and> authMessage st' = authMessage st \<and> clientFinalMessage st' = clientFinalMessage st"
  using assms
  by (auto simp: processSASLContinue_def Let_def split: option.splits if_splits)

theorem processSASLContinue_error_frame_witness:
  "processSASLContinue tablePlatform demoState (asciiBytes demoWrongNonce) ''secret'' =
     Returned (demoState\<lparr>serverFirstMessage := Some demoWrongNonce\<rparr>)
       (Some ''Server nonce does not start with client nonce'') \<and>
   salt (demoState\<lparr>serverFirstMessage := Some demoWrongNonce\<rparr>) = salt demoState \<and>
   serverNonce (demoState\<lparr>serverFirstMessage := Some demoWrongNonce\<rparr>) = serverNonce demoState \<and>
   clientFinalMessage (demoState\<lparr>serverFirstMessage := Some demoWrongNonce\<rparr>)
     = clientFinalMessage demoState"
proof -
  have r: "processSASLContinue tablePlatform demoState (asciiBytes demoWrongNonce) ''secret'' =
     Returned (demoState\<lparr>serverFirstMessage := Some demoWrongNonce\<rparr>)
       (Some ''Server nonce does not start with client nonce'')"
    by (simp add: processSASLContinue_def Let_def table_simps demo_params demo_state
        toStringOrNull_def startsWith_def)
  from processSASLContinue_error_frame [OF r] r show ?thesis
    by simp
qed

section \<open>Properties of parseCommandComplete\<close>

lemma split_on_nonempty: "split_on c s \<noteq> []"
  by (induction s) (auto split: list.splits)

lemma hd_butlast: "length xs \<ge> 2 \<Longrightarrow> hd (butlast xs) = hd xs"
  by (cases xs) (auto split: if_splits)

lemma parseCommandComplete_eq:
  "parseCommandComplete P message = spec_commandComplete_guarded (readCString P message 0)"
proof -
  let ?parts = "split_on CHR '' '' (readCString P message 0)"
  have ne: "?parts \<noteq> []" by (rule split_on_nonempty)
  then have h0: "?parts ! 0 = hd ?parts" by (simp add: hd_conv_nth)
  show ?thesis
    by (simp add: parseCommandComplete_def spec_commandComplete_guarded_def Let_def h0 hd_butlast)
qed

lemma spec_examples:
  "spec_commandComplete_guarded ''INSERT 12345 7'' =
     \<lparr>command = ''INSERT'', rowCount = Num 7, oid = Some (Num 12345),
      commandTag = ''INSERT 12345 7''\<rparr>"
  "spec_commandComplete_guarded ''SELECT 42'' =
     \<lparr>command = ''SELECT'', rowCount = Num 42, oid = None, commandTag = ''SELECT 42''\<rparr>"
  "spec_commandComplete_guarded ''VACUUM'' =
     \<lparr>command = ''VACUUM'', rowCount = Num 0, oid = None, commandTag = ''VACUUM''\<rparr>"
  by code_simp+

text \<open>
  Claim C7, as stated, fails on a tag of one token that is a number: the claim parses the
  last token, the code parses nothing when there is one token only.
\<close>

theorem parseCommandComplete_single_token_counterexample:
  "readCString tablePlatform (asciiBytes ''42'' @ [0]) 0 = ''42'' \<and>
   rowCount (parseCommandComplete tablePlatform (asciiBytes ''42'' @ [0])) = Num 0 \<and>
   rowCount (spec_commandComplete ''42'') = Num 42"
  by code_simp

text \<open>
  Claim C7, as the code has it. \<open>parseCommandComplete\<close> splits the tag on spaces; three
  tokens of which the first is \<open>INSERT\<close> in any case give \<open>oid\<close> and \<open>rowCount\<close> from the
  second and the third token; otherwise \<open>oid\<close> is \<open>null\<close>, and \<open>rowCount\<close> is the last token
  parsed as an integer (0 when it is not a number) when there are two tokens or more, and 0
  when there is one token; \<open>command\<close> is the first token. The three tags of the
  specification give the three results of the specification.
\<close>

theorem parseCommandComplete_guarded:
  "parseCommandComplete P message = spec_commandComplete_guarded (readCString P message 0)
   \<and> (readCString P message 0 = ''INSERT 12345 7'' \<longrightarrow>
        parseCommandComplete P message =
          \<lparr>command = ''INSERT'', rowCount = Num 7, oid = Some (Num 12345),
           commandTag = ''INSERT 12345 7''\<rparr>)
   \<and> (readCString P message 0 = ''SELECT 42'' \<longrightarrow>
        parseCommandComplete P message =
          \<lparr>command = ''SELECT'', rowCount = Num 42, oid = None, commandTag = ''SELECT 42''\<rparr>)
   \<and> (readCString P message 0 = ''VACUUM'' \<longrightarrow>
        parseCommandComplete P message =
          \<lparr>command = ''VACUUM'', rowCount = Num 0, oid = None, commandTag = ''VACUUM''\<rparr>)"
  by (simp add: parseCommandComplete_eq spec_examples)

lemma readCString_examples:
  "readCString tablePlatform (asciiBytes ''INSERT 12345 7'' @ [0]) 0 = ''INSERT 12345 7''"
  "readCString tablePlatform (asciiBytes ''SELECT 42'' @ [0]) 0 = ''SELECT 42''"
  "readCString tablePlatform (asciiBytes ''VACUUM'' @ [0]) 0 = ''VACUUM''"
  by code_simp+

theorem parseCommandComplete_guarded_witness:
  "readCString tablePlatform (asciiBytes ''INSERT 12345 7'' @ [0]) 0 = ''INSERT 12345 7'' \<and>
   parseCommandComplete tablePlatform (asciiBytes ''INSERT 12345 7'' @ [0]) =
     \<lparr>command = ''INSERT'', rowCount = Num 7, oid = Some (Num 12345),
      commandTag = ''INSERT 12345 7''\<rparr> \<and>
   readCString tablePlatform (asciiBytes ''SELECT 42'' @ [0]) 0 = ''SELECT 42'' \<and>
   parseCommandComplete tablePlatform (asciiBytes ''SELECT 42'' @ [0]) =
     \<lparr>command = ''SELECT'', rowCount = Num 42, oid = None, commandTag = ''SELECT 42''\<rparr> \<and>
   readCString tablePlatform (asciiBytes ''VACUUM'' @ [0]) 0 = ''VACUUM'' \<and>
   parseCommandComplete tablePlatform (asciiBytes ''VACUUM'' @ [0]) =
     \<lparr>command = ''VACUUM'', rowCount = Num 0, oid = None, commandTag = ''VACUUM''\<rparr>"
  using parseCommandComplete_guarded [of tablePlatform "asciiBytes ''INSERT 12345 7'' @ [0]"]
    parseCommandComplete_guarded [of tablePlatform "asciiBytes ''SELECT 42'' @ [0]"]
    parseCommandComplete_guarded [of tablePlatform "asciiBytes ''VACUUM'' @ [0]"]
    readCString_examples
  by (simp add: spec_examples)

section \<open>Properties of parseDataRow\<close>

lemma uint_byte_of_int: "uint (word_of_int k :: byte) = k mod 256"
  by (simp add: uint_word_of_int)

lemma mod_signed:
  fixes n m :: int
  assumes "- m \<le> n" "n < m" "0 < m"
  shows "n mod (2 * m) = (if 0 \<le> n then n else n + 2 * m)"
proof (cases "0 \<le> n")
  case True
  with assms show ?thesis by simp
next
  case False
  have "(n + 2 * m) mod (2 * m) = n + 2 * m"
    using assms False by (intro mod_pos_pos_trivial) auto
  then show ?thesis using False by simp
qed

lemma int32_roundtrip:
  assumes "- 2147483648 \<le> n" "n < 2147483648"
  shows "int32Of (word_of_int (n div 16777216)) (word_of_int (n div 65536))
           (word_of_int (n div 256)) (word_of_int n) = n"
proof -
  let ?u = "((n div 16777216 mod 256 * 256 + n div 65536 mod 256) * 256 + n div 256 mod 256) * 256
            + n mod 256"
  have a: "n mod 65536 = 256 * (n div 256 mod 256) + n mod 256"
    using zmod_zmult2_eq [of 256 n 256] by simp
  have b: "n mod 16777216 = 65536 * (n div 65536 mod 256) + n mod 65536"
    using zmod_zmult2_eq [of 256 n 65536] by simp
  have c: "n mod 4294967296 = 16777216 * (n div 16777216 mod 256) + n mod 16777216"
    using zmod_zmult2_eq [of 256 n 16777216] by simp
  have u: "?u = n mod 4294967296"
    unfolding a b c by (simp only: algebra_simps)
  have m: "n mod 4294967296 = (if 0 \<le> n then n else n + 4294967296)"
    using mod_signed [of 2147483648 n] assms by simp
  have e: "int32Of (word_of_int (n div 16777216)) (word_of_int (n div 65536))
           (word_of_int (n div 256)) (word_of_int n)
         = (if ?u \<ge> 2 ^ 31 then ?u - 2 ^ 32 else ?u)"
    by (simp only: int32Of_def Let_def uint_byte_of_int)
  show ?thesis
    unfolding e u m using assms by (auto split: if_splits)
qed

lemma int16_roundtrip:
  assumes "- 32768 \<le> n" "n < 32768"
  shows "int16Of (word_of_int (n div 256)) (word_of_int n) = n"
proof -
  let ?u = "n div 256 mod 256 * 256 + n mod 256"
  have u: "?u = n mod 65536"
    using zmod_zmult2_eq [of 256 n 256] by simp
  have m: "n mod 65536 = (if 0 \<le> n then n else n + 65536)"
    using mod_signed [of 32768 n] assms by simp
  have e: "int16Of (word_of_int (n div 256)) (word_of_int n)
         = (if ?u \<ge> 2 ^ 15 then ?u - 2 ^ 16 else ?u)"
    by (simp only: int16Of_def Let_def uint_byte_of_int)
  show ?thesis
    unfolding e u m using assms by (auto split: if_splits)
qed

lemma readInt32BE_at:
  assumes "- 2147483648 \<le> n" "n < 2147483648"
  shows "readInt32BE (pre @ writeInt32BE n @ rest) (int (length pre)) = Inr n"
proof -
  have "int32Of ((pre @ writeInt32BE n @ rest) ! length pre)
          ((pre @ writeInt32BE n @ rest) ! (length pre + 1))
          ((pre @ writeInt32BE n @ rest) ! (length pre + 2))
          ((pre @ writeInt32BE n @ rest) ! (length pre + 3)) = n"
    using int32_roundtrip [OF assms] by (simp add: writeInt32BE_def nth_append)
  then show ?thesis
    by (simp add: readInt32BE_def writeInt32BE_def)
qed

lemma readInt16BE_at:
  assumes "- 32768 \<le> n" "n < 32768"
  shows "readInt16BE (writeInt16BE n @ rest) 0 = Inr n"
  using int16_roundtrip [OF assms] by (simp add: readInt16BE_def writeInt16BE_def)

lemma length_writeInt32BE: "length (writeInt32BE n) = 4"
  by (simp add: writeInt32BE_def)

lemma length_writeInt16BE: "length (writeInt16BE n) = 2"
  by (simp add: writeInt16BE_def)

lemma toStringRange_at:
  "toStringRange P (pre @ v @ rest) (int (length pre)) (int (length pre) + int (length v))
     = toStringRange P v 0 (int (length v))"
  by (simp add: toStringRange_def Let_def)

lemma encodeColumn_simps:
  "encodeColumn None = writeInt32BE (- 1)"
  "encodeColumn (Some v) = writeInt32BE (int (length v)) @ v"
  by (simp_all add: encodeColumn_def)

lemma columnValue_simps:
  "columnValue P None = Null"
  "columnValue P (Some v) = Str (toStringRange P v 0 (int (length v)))"
  by (simp_all add: columnValue_def)

lemma storeColumn_pair:
  "storeColumn P r (f, c) = setRowProp r (name f) (columnValue P c)"
  by (simp add: storeColumn_def)

lemma dataRowLoop_encoded:
  assumes "length fs = length cols"
    and "\<forall>c \<in> set cols. \<forall>v. c = Some v \<longrightarrow> length v < 2147483648"
  shows "dataRowLoop P (pre @ concat (map encodeColumn cols)) fs (int (length pre)) r
           = Inr (foldl (storeColumn P) r (zip fs cols))"
  using assms
proof (induction fs cols arbitrary: pre r rule: list_induct2)
  case Nil
  then show ?case by simp
next
  case (Cons f fs c cols)
  show ?case
  proof (cases c)
    case None
    have rd: "readInt32BE (pre @ writeInt32BE (- 1) @ concat (map encodeColumn cols)) (int (length pre))
              = Inr (- 1)"
      by (rule readInt32BE_at) simp_all
    have ih: "dataRowLoop P ((pre @ writeInt32BE (- 1)) @ concat (map encodeColumn cols)) fs
                (int (length (pre @ writeInt32BE (- 1)))) (setRowProp r (name f) Null)
              = Inr (foldl (storeColumn P) (setRowProp r (name f) Null) (zip fs cols))"
      using Cons.prems by (intro Cons.IH) auto
    show ?thesis
      using rd ih None
      by (simp add: encodeColumn_simps length_writeInt32BE storeColumn_pair columnValue_simps)
  next
    case (Some v)
    then have lv: "length v < 2147483648" using Cons.prems by auto
    have rd: "readInt32BE (pre @ writeInt32BE (int (length v)) @ (v @ concat (map encodeColumn cols)))
                (int (length pre)) = Inr (int (length v))"
      using lv by (intro readInt32BE_at) simp_all
    have ih: "dataRowLoop P ((pre @ writeInt32BE (int (length v)) @ v) @ concat (map encodeColumn cols)) fs
                (int (length (pre @ writeInt32BE (int (length v)) @ v)))
                (setRowProp r (name f) (columnValue P (Some v)))
              = Inr (foldl (storeColumn P) (setRowProp r (name f) (columnValue P (Some v))) (zip fs cols))"
      using Cons.prems by (intro Cons.IH) auto
    have ts: "toStringRange P (pre @ writeInt32BE (int (length v)) @ v @ concat (map encodeColumn cols))
                (int (length pre) + 4) (int (length pre) + 4 + int (length v))
              = toStringRange P v 0 (int (length v))"
      using toStringRange_at [of P "pre @ writeInt32BE (int (length v))" v
          "concat (map encodeColumn cols)"]
      by (simp add: length_writeInt32BE)
    show ?thesis
      using rd ih ts Some
      by (simp add: encodeColumn_simps length_writeInt32BE storeColumn_pair columnValue_simps
          add.assoc)
  qed
qed

lemma setRowProp_other: "key \<noteq> k \<Longrightarrow> props (setRowProp r k v) key = props r key"
  by (simp add: setRowProp_def split: colvalue.splits)

lemma setRowProp_same: "''__proto__'' \<noteq> k \<Longrightarrow> props (setRowProp r k v) k = Some v"
  by (auto simp add: setRowProp_def)

lemma store_other:
  "key \<notin> set (map (\<lambda>p. name (fst p)) ps) \<Longrightarrow> props (foldl (storeColumn P) r ps) key = props r key"
  by (induction ps arbitrary: r) (auto simp: storeColumn_def setRowProp_other)

lemma store_lookup:
  assumes "distinct (map (\<lambda>p. name (fst p)) ps)"
    and "''__proto__'' \<notin> set (map (\<lambda>p. name (fst p)) ps)"
    and "i < length ps"
  shows "props (foldl (storeColumn P) r ps) (name (fst (ps ! i))) = Some (columnValue P (snd (ps ! i)))"
  using assms
proof (induction ps arbitrary: r i)
  case Nil
  then show ?case by simp
next
  case (Cons p ps)
  show ?case
  proof (cases i)
    case 0
    have "props (foldl (storeColumn P) (storeColumn P r p) ps) (name (fst p))
          = props (storeColumn P r p) (name (fst p))"
      using Cons.prems(1) by (intro store_other) auto
    also have "\<dots> = Some (columnValue P (snd p))"
      using Cons.prems(2) by (simp add: storeColumn_def setRowProp_same)
    finally show ?thesis using 0 by simp
  next
    case (Suc j)
    then show ?thesis
      using Cons.prems Cons.IH [of j "storeColumn P r p"] by simp
  qed
qed

lemma parseDataRow_encoded:
  assumes "length cols \<le> length fs" "length cols < 32768"
    and "\<forall>c \<in> set cols. \<forall>v. c = Some v \<longrightarrow> length v < 2147483648"
  shows "parseDataRow P (encodeDataRow cols) (Some fs)
           = Inr (foldl (storeColumn P) emptyRow (zip (take (length cols) fs) cols))"
proof -
  have rd: "readInt16BE (writeInt16BE (int (length cols)) @ concat (map encodeColumn cols)) 0
            = Inr (int (length cols))"
    using assms(2) by (intro readInt16BE_at) simp_all
  have len: "length (take (length cols) fs) = length cols"
    using assms(1) by simp
  have lp: "dataRowLoop P (writeInt16BE (int (length cols)) @ concat (map encodeColumn cols))
              (take (length cols) fs) (int (length (writeInt16BE (int (length cols))))) emptyRow
            = Inr (foldl (storeColumn P) emptyRow (zip (take (length cols) fs) cols))"
    using len assms(3) by (rule dataRowLoop_encoded)
  show ?thesis
    using rd lp by (simp add: parseDataRow_def encodeDataRow_def length_writeInt16BE)
qed

text \<open>
  Claim C8, as the code has it. A DataRow body that encodes the columns \<open>cols\<close> (fewer than
  \<open>2 ^ 15\<close> columns, each value shorter than \<open>2 ^ 31\<close> bytes), decoded against a field list
  that has a field for every column, with the names of these fields distinct and none of
  them \<open>__proto__\<close>: the row holds, under the name of the \<open>i\<close>-th field, the string of the
  \<open>i\<close>-th value, or \<open>null\<close> when the column was encoded with the length \<open>-1\<close>.
\<close>

theorem parseDataRow_roundtrip:
  assumes "length cols \<le> length fs" "length cols < 32768"
    and "\<forall>c \<in> set cols. \<forall>v. c = Some v \<longrightarrow> length v < 2147483648"
    and "distinct (map name (take (length cols) fs))"
    and "''__proto__'' \<notin> set (map name (take (length cols) fs))"
    and "i < length cols"
  shows "column (parseDataRow P (encodeDataRow cols) (Some fs)) (name (fs ! i))
           = Some (columnValue P (cols ! i))"
proof -
  let ?ps = "zip (take (length cols) fs) cols"
  have len: "length (take (length cols) fs) = length cols"
    using assms(1) by simp
  have m: "map (\<lambda>p. name (fst p)) ?ps = map name (take (length cols) fs)"
    using len by (simp add: map_fst_zip flip: map_map [unfolded o_def])
  have i: "i < length ?ps" using assms(6) len by simp
  have "props (foldl (storeColumn P) emptyRow ?ps) (name (fst (?ps ! i)))
        = Some (columnValue P (snd (?ps ! i)))"
    using assms(4,5) i unfolding m [symmetric] by (rule store_lookup)
  moreover have "fst (?ps ! i) = fs ! i" "snd (?ps ! i) = cols ! i"
    using assms(6) len by simp_all
  ultimately show ?thesis
    using parseDataRow_encoded [OF assms(1-3), of P] by (simp add: column_def)
qed


lemma toStringRange_ascii:
  "toStringRange tablePlatform (asciiBytes s) 0 (int (length (asciiBytes s))) = s"
proof -
  have "length (asciiBytes s) = length s"
    by (simp add: asciiBytes_def)
  then show ?thesis
    by (cases s) (simp_all add: toStringRange_def tablePlatform_def ascii_roundtrip)
qed

theorem parseDataRow_roundtrip_witness:
  "length [None, Some (asciiBytes ''x'')] \<le> length [mkField ''a'', mkField ''b''] \<and>
   distinct (map name [mkField ''a'', mkField ''b'']) \<and>
   column (parseDataRow tablePlatform (encodeDataRow [None, Some (asciiBytes ''x'')])
     (Some [mkField ''a'', mkField ''b''])) ''a'' = Some Null \<and>
   column (parseDataRow tablePlatform (encodeDataRow [None, Some (asciiBytes ''x'')])
     (Some [mkField ''a'', mkField ''b''])) ''b'' = Some (Str ''x'')"
  using parseDataRow_roundtrip [of "[None, Some (asciiBytes ''x'')]"
      "[mkField ''a'', mkField ''b'']" 0 tablePlatform]
    parseDataRow_roundtrip [of "[None, Some (asciiBytes ''x'')]"
      "[mkField ''a'', mkField ''b'']" 1 tablePlatform]
    toStringRange_ascii [of "''x''"]
  by (simp add: mkField_def columnValue_simps asciiBytes_def [of "''x''"])

text \<open>
  Claim C8, as stated for every field list, fails when two fields have the same name: the
  row is an object keyed by name, and the second column overwrites the first.
\<close>

theorem parseDataRow_duplicate_name_counterexample:
  "column (parseDataRow tablePlatform
      (encodeDataRow [Some (asciiBytes ''1''), Some (asciiBytes ''2'')])
      (Some [mkField ''x'', mkField ''x''])) ''x'' = Some (Str ''2'')
   \<and> columnValue tablePlatform (Some (asciiBytes ''1'')) = Str ''1''"
  by code_simp

section \<open>Properties of the framing loop\<close>


lemma headerLength_append: "length a \<ge> 5 \<Longrightarrow> headerLength (a @ b) = headerLength a"
  by (simp add: headerLength_def nth_append)

lemma headerLength_take: "k \<ge> 5 \<Longrightarrow> headerLength (take k m) = headerLength m"
  by (simp add: headerLength_def)

lemma loop_short: "length buf < 5 \<Longrightarrow> processIncomingData D buf s = (buf, s)"
  by (subst processIncomingData.simps) simp

lemma loop_wellFormed:
  assumes "wellFormed m"
  shows "processIncomingData D (m @ rest) s = processIncomingData D rest (D s m)"
proof -
  from assms have l: "length m \<ge> 5"
    and h: "headerLength m = int (length m) - 1"
    by (simp_all add: wellFormed_def)
  have hd: "headerLength (m @ rest) = int (length m) - 1"
    using l h by (simp add: headerLength_append)
  show ?thesis
    using l by (subst processIncomingData.simps) (simp add: hd Let_def)
qed

lemma loop_messages:
  assumes "\<forall>m \<in> set msgs. wellFormed m"
  shows "processIncomingData D (concat msgs @ rest) s = processIncomingData D rest (foldl D s msgs)"
  using assms
  by (induction msgs arbitrary: s) (simp_all add: loop_wellFormed)

lemma loop_partial:
  assumes "wellFormed m" "k < length m"
  shows "processIncomingData D (take k m) s = (take k m, s)"
proof (cases "k < 5")
  case True
  then show ?thesis by (simp add: loop_short)
next
  case False
  from assms have h: "headerLength m = int (length m) - 1"
    by (simp add: wellFormed_def)
  have hd: "headerLength (take k m) = int (length m) - 1"
    using False h by (simp add: headerLength_take)
  show ?thesis
    using False assms(2) by (subst processIncomingData.simps) (simp add: hd Let_def)
qed

lemma loop_incremental:
  "processIncomingData D (fst (processIncomingData D a s) @ b) (snd (processIncomingData D a s))
     = processIncomingData D (a @ b) s"
proof (induction D a s rule: processIncomingData.induct)
  case (1 D a s)
  let ?len = "headerLength a"
  show ?case
  proof (cases "length a \<ge> 5")
    case False
    then show ?thesis by (simp add: loop_short)
  next
    case True
    then have hd: "headerLength (a @ b) = ?len"
      by (simp add: headerLength_append)
    have ab: "length (a @ b) \<ge> 5" using True by simp
    consider (resync) "?len < 4" | (wait) "?len \<ge> 4" "int (length a) < ?len + 1"
      | (msg) "?len \<ge> 4" "\<not> int (length a) < ?len + 1"
      by linarith
    then show ?thesis
    proof cases
      case resync
      have l: "processIncomingData D a s = processIncomingData D (drop 1 a) s"
        using True resync by (subst processIncomingData.simps) (simp add: Let_def)
      have r: "processIncomingData D (a @ b) s = processIncomingData D (drop 1 a @ b) s"
        using ab resync True by (subst processIncomingData.simps) (simp add: hd Let_def)
      show ?thesis
        using "1.IH"(1) [OF True refl resync] by (simp add: l r)
    next
      case wait
      have l: "processIncomingData D a s = (a, s)"
        using True wait by (subst processIncomingData.simps) (simp add: Let_def)
      show ?thesis by (simp add: l)
    next
      case msg
      have l: "processIncomingData D a s
               = processIncomingData D (drop (nat (?len + 1)) a) (D s (take (nat (?len + 1)) a))"
        using True msg by (subst processIncomingData.simps) (simp add: Let_def)
      have r: "processIncomingData D (a @ b) s
               = processIncomingData D (drop (nat (?len + 1)) a @ b) (D s (take (nat (?len + 1)) a))"
        using ab msg True by (subst processIncomingData.simps) (simp add: hd Let_def)
      have n: "\<not> ?len < 4" using msg by simp
      show ?thesis
        using "1.IH"(2) [OF True refl n refl msg(2)] by (simp add: l r)
    qed
  qed
qed

lemma feed_fold:
  "foldl (onData D) (processIncomingData D a s) chunks = processIncomingData D (a @ concat chunks) s"
proof (induction chunks arbitrary: a)
  case Nil
  then show ?case by simp
next
  case (Cons c cs)
  have "onData D (processIncomingData D a s) c = processIncomingData D (a @ c) s"
    by (simp add: onData_def loop_incremental)
  then show ?case using Cons.IH [of "a @ c"] by simp
qed

lemma feedChunks_eq:
  "feedChunks chunks = processIncomingData recordMessage (concat chunks) []"
  using feed_fold [of recordMessage "[]" "[]" chunks]
  by (simp add: feedChunks_def loop_short)

lemma foldl_record: "foldl recordMessage log msgs = log @ msgs"
  by (induction msgs arbitrary: log) (simp_all add: recordMessage_def)

text \<open>
  Claim C2. Messages \<open>msgs\<close>, all well-formed, whose byte stream arrives cut into the
  chunks \<open>chunks\<close> in any way: the framer dispatches exactly \<open>msgs\<close>, in order, and leaves
  the accumulator empty. When the chunks end inside a further well-formed message \<open>unfinished\<close>,
  of which only the first \<open>k\<close> bytes have arrived (\<open>k\<close> less than its length, which is 1
  plus its declared length), \<open>unfinished\<close> is not dispatched: the dispatched messages are \<open>msgs\<close>
  and the \<open>k\<close> bytes stay in the accumulator.
\<close>

theorem framer_chunking:
  assumes "\<forall>m \<in> set msgs. wellFormed m"
  shows "(concat chunks = concat msgs \<longrightarrow> feedChunks chunks = ([], msgs))
       \<and> (wellFormed unfinished \<and> k < length unfinished \<and> concat chunks = concat msgs @ take k unfinished
            \<longrightarrow> feedChunks chunks = (take k unfinished, msgs))"
proof (intro conjI impI)
  assume "concat chunks = concat msgs"
  then show "feedChunks chunks = ([], msgs)"
    using loop_messages [OF assms, of recordMessage "[]" "[]"]
    by (simp add: feedChunks_eq loop_short foldl_record)
next
  assume h: "wellFormed unfinished \<and> k < length unfinished \<and> concat chunks = concat msgs @ take k unfinished"
  then show "feedChunks chunks = (take k unfinished, msgs)"
    using loop_messages [OF assms, of recordMessage "take k unfinished" "[]"]
      loop_partial [of unfinished k recordMessage msgs]
    by (simp add: feedChunks_eq foldl_record)
qed

lemma wellFormed_frame:
  assumes "int (length body) + 4 < 2147483648"
  shows "wellFormed (frame t body)"
proof -
  have "headerLength (frame t body) = int (length body) + 4"
    using int32_roundtrip [of "int (length body) + 4"] assms
    by (simp add: headerLength_def frame_def writeInt32BE_def)
  then show ?thesis
    by (simp add: wellFormed_def frame_def length_writeInt32BE)
qed

lemma demo_wellFormed: "wellFormed demoReady" "wellFormed demoComplete"
  by (simp_all add: wellFormed_def headerLength_def int32Of_def demoReady_def demoComplete_def)

theorem framer_chunking_witness:
  "wellFormed demoComplete \<and> wellFormed demoReady \<and>
   concat demoChunks = concat [demoComplete, demoReady] \<and>
   feedChunks demoChunks = ([], [demoComplete, demoReady]) \<and>
   2 < length demoReady \<and>
   concat (butlast demoChunks) = concat [demoComplete] @ take 2 demoReady \<and>
   feedChunks (butlast demoChunks) = (take 2 demoReady, [demoComplete])"
proof -
  have a: "\<forall>m \<in> set [demoComplete, demoReady]. wellFormed m"
    and b: "\<forall>m \<in> set [demoComplete]. wellFormed m"
    by (simp_all add: demo_wellFormed)
  have c: "concat demoChunks = concat [demoComplete, demoReady]"
    and d: "concat (butlast demoChunks) = concat [demoComplete] @ take 2 demoReady"
    and e: "2 < length demoReady"
    by (simp_all add: demoChunks_def demoComplete_def demoReady_def)
  from framer_chunking [OF a, where chunks = demoChunks] framer_chunking [OF b, where chunks = "butlast demoChunks" and unfinished = demoReady and k = 2]
    c d e demo_wellFormed
  show ?thesis by simp
qed

section \<open>Properties of the connection\<close>

lemma calm_refl: "calm c c"
  by (simp add: calm_def)

lemma calm_trans: "calm a b \<Longrightarrow> calm b c \<Longrightarrow> calm a c"
  by (auto simp: calm_def)

lemma calm_inv: "inv_ready c \<Longrightarrow> calm c c' \<Longrightarrow> inv_ready c'"
  by (auto simp: calm_def inv_ready_def)

lemma outstanding_snoc:
  "queryOutstanding (h @ [ob]) = outstandingAfter (queryOutstanding h) ob"
  by (simp add: queryOutstanding_def)

lemma outstanding_nil: "\<not> queryOutstanding []"
  by (simp add: queryOutstanding_def)

lemmas obs_simps = outstanding_snoc outstandingAfter_def record_obs_def socketWrite_def

lemma calm_foldl:
  assumes "\<And>s x. calm s (f s x)"
  shows "calm c (foldl f c xs)"
proof (induction xs arbitrary: c)
  case Nil
  show ?case by (simp add: calm_refl)
next
  case (Cons x xs)
  show ?case
    using calm_trans [OF assms [of c x] Cons [of "f c x"]] by simp
qed

lemma calm_cleanup: "calm c (cleanup k c)"
  by (simp add: calm_def cleanup_def)

lemma calm_fireError: "calm c (fireError err c l)"
  by (cases l)
     (auto simp: calm_def fireError_def connectOnError_def queryOnError_def cleanup_def obs_simps)

lemma calm_emitError: "calm c (emitError err c)"
  unfolding emitError_def
  using calm_foldl [of "fireError err" c "errorListeners c", OF calm_fireError]
  by (auto simp: calm_def)

lemma calm_emitAuthenticationError: "calm c (emitAuthenticationError err c)"
  by (auto simp: calm_def emitAuthenticationError_def connectOnAuthError_def obs_simps)

lemma quiet_fireReady:
  "\<not> queryOutstanding (history c) \<Longrightarrow> \<not> queryOutstanding (history (fireReady P status c l))"
  by (cases l)
     (auto simp: fireReady_def connectOnReadyForQuery_def queryOnReadyForQuery_def
        currentQueryResolve_def cleanup_def obs_simps Let_def split: option.splits)

lemma quiet_foldl_fireReady:
  "\<not> queryOutstanding (history c) \<Longrightarrow>
   \<not> queryOutstanding (history (foldl (fireReady P status) c ls))"
  by (induction ls arbitrary: c) (simp_all add: quiet_fireReady)

lemma quiet_handleReadyForQuery:
  "\<not> queryOutstanding (history (handleReadyForQuery P message c))"
  unfolding handleReadyForQuery_def Let_def emitReadyForQuery_def
  by (rule quiet_foldl_fireReady) (simp add: obs_simps)

lemma calm_handleReadyForQuery: "calm c (handleReadyForQuery P message c)"
  by (simp add: calm_def quiet_handleReadyForQuery)

lemma calm_field_update:
  "history c' = history c \<Longrightarrow> readyForQuery c' = readyForQuery c \<Longrightarrow> calm c c'"
  by (simp add: calm_def)

lemma calm_handleErrorResponse: "calm c (handleErrorResponse P message c)"
proof (cases "currentQuery c")
  case None
  have "calm c (emitError err (emitAuthenticationError err c))" for err
    by (rule calm_trans [OF calm_emitAuthenticationError calm_emitError])
  with None show ?thesis
    by (simp add: handleErrorResponse_def Let_def)
next
  case (Some j)
  have "\<not> queryOutstanding (history ((currentQueryReject j err c)\<lparr>currentQuery := None\<rparr>))" for err
    by (simp add: currentQueryReject_def obs_simps)
  then have "calm c ((currentQueryReject j err c)\<lparr>currentQuery := None\<rparr>)" for err
    by (simp add: calm_def)
  with Some show ?thesis
    by (simp add: handleErrorResponse_def Let_def)
qed

lemma updateClosure_frame [simp]:
  "history (updateClosure j f c) = history c"
  "readyForQuery (updateClosure j f c) = readyForQuery c"
  by (simp_all add: updateClosure_def)

lemma calm_handleQueryResponse: "calm c (handleQueryResponse P t message c)"
proof (cases "currentQuery c")
  case None
  then show ?thesis by (simp add: handleQueryResponse_def calm_refl)
next
  case (Some j)
  have a: "calm c (case x of Inl e \<Rightarrow> c\<lparr>crashed := True\<rparr> | Inr v \<Rightarrow> updateClosure j (g v) c)"
    for x :: "js_error + 'a" and g
    by (cases x) (simp_all add: calm_field_update)
  show ?thesis
    using Some by (simp add: handleQueryResponse_def calm_refl calm_field_update a)
qed

lemma calm_handleBackendKeyData: "calm c (handleBackendKeyData message c)"
  by (simp add: handleBackendKeyData_def calm_field_update calm_refl)

lemma calm_write:
  "(case p of QueryPacket _ \<Rightarrow> False | _ \<Rightarrow> True) \<Longrightarrow> calm c (socketWrite p c)"
  by (cases p) (simp_all add: calm_def obs_simps)


lemma calm_after_update:
  assumes "history c' = history c" "readyForQuery c' = readyForQuery c" "calm c' x"
  shows "calm c x"
  using assms by (simp add: calm_def)

lemma calm_handleMD5Authentication: "calm c (handleMD5Authentication P m c)"
  by (simp add: handleMD5Authentication_def Let_def calm_write)

lemma calm_handleSASLAuthentication: "calm c (handleSASLAuthentication P m c)"
proof (cases "''SCRAM-SHA-256'' \<in> set (readMechanisms P m 0)")
  case False
  then show ?thesis
    by (simp add: handleSASLAuthentication_def Let_def calm_emitAuthenticationError)
next
  case True
  let ?st = "startSCRAMSHA256 (scram c) (connUser c) (randomBytes P (draws c))"
  let ?c1 = "c\<lparr>scram := ?st, draws := draws c + 1\<rparr>"
  have "calm c (case clientFirstMessage ?st of
                  Some m \<Rightarrow> socketWrite (SASLInitialResponsePacket ''SCRAM-SHA-256'' m) ?c1
                | None \<Rightarrow> ?c1\<lparr>crashed := True\<rparr>)"
  proof (cases "clientFirstMessage ?st")
    case None
    then show ?thesis by (simp add: calm_field_update)
  next
    case (Some m)
    have "calm ?c1 (socketWrite (SASLInitialResponsePacket ''SCRAM-SHA-256'' m) ?c1)"
      by (rule calm_write) simp
    then have "calm c (socketWrite (SASLInitialResponsePacket ''SCRAM-SHA-256'' m) ?c1)"
      by (rule calm_after_update [rotated 2]) simp_all
    with Some show ?thesis by simp
  qed
  with True show ?thesis
    unfolding handleSASLAuthentication_def Let_def by (simp only: if_True)
qed

lemma calm_scram_emit: "calm c (emitAuthenticationError e (c\<lparr>scram := st\<rparr>))"
  by (rule calm_after_update [OF _ _ calm_emitAuthenticationError]) simp_all

lemma calm_scram_write:
  "calm c (socketWrite (PasswordPacket m b) (c\<lparr>scram := st\<rparr>))"
  by (rule calm_after_update [OF _ _ calm_write]) simp_all

lemma calm_handleSASLContinue: "calm c (handleSASLContinue P m c)"
proof (cases "processSASLContinue P (scram c) m (connPassword c)")
  case (Threw st)
  then show ?thesis by (simp add: handleSASLContinue_def calm_field_update)
next
  case (Returned st e)
  then show ?thesis
    by (cases e; cases "clientFinalMessage st")
       (simp_all add: handleSASLContinue_def calm_field_update calm_scram_emit calm_scram_write)
qed

lemma calm_handleSASLFinal: "calm c (handleSASLFinal P m c)"
proof (cases "processSASLFinal P (scram c) m")
  case (Threw st)
  then show ?thesis by (simp add: handleSASLFinal_def calm_field_update)
next
  case (Returned st e)
  then show ?thesis
    by (cases e) (simp_all add: handleSASLFinal_def calm_field_update calm_scram_emit)
qed

lemma calm_handleAuthenticationMessage: "calm c (handleAuthenticationMessage P message c)"
  by (simp add: handleAuthenticationMessage_def Let_def calm_refl calm_write
      calm_handleMD5Authentication calm_handleSASLAuthentication calm_handleSASLContinue
      calm_handleSASLFinal calm_emitAuthenticationError)

lemma calm_processMessage: "calm c (processMessage P c message)"
  by (simp add: processMessage_def Let_def calm_refl calm_handleAuthenticationMessage
      calm_handleBackendKeyData calm_handleReadyForQuery calm_handleErrorResponse
      calm_handleQueryResponse)

lemma calm_loop:
  assumes "\<And>s m. calm s (D s m)"
  shows "calm s (snd (processIncomingData D buf s))"
  using assms
proof (induction D buf s rule: processIncomingData.induct)
  case (1 D buf s)
  let ?len = "headerLength buf"
  consider (short) "length buf < 5" | (resync) "length buf \<ge> 5" "?len < 4"
    | (wait) "length buf \<ge> 5" "\<not> ?len < 4" "int (length buf) < ?len + 1"
    | (msg) "length buf \<ge> 5" "\<not> ?len < 4" "\<not> int (length buf) < ?len + 1"
    by linarith
  then show ?case
  proof cases
    case short
    then show ?thesis
      by (subst processIncomingData.simps) (simp add: calm_refl)
  next
    case resync
    have "calm s (snd (processIncomingData D (drop 1 buf) s))"
      using "1.IH"(1) [OF resync(1) refl resync(2)] "1.prems" by simp
    then show ?thesis
      using resync by (subst processIncomingData.simps) (simp add: Let_def)
  next
    case wait
    then show ?thesis
      by (subst processIncomingData.simps) (simp add: Let_def calm_refl)
  next
    case msg
    let ?m = "take (nat (?len + 1)) buf"
    have "calm (D s ?m) (snd (processIncomingData D (drop (nat (?len + 1)) buf) (D s ?m)))"
      using "1.IH"(2) [OF msg(1) refl msg(2) refl msg(3)] "1.prems" by simp
    then have "calm s (snd (processIncomingData D (drop (nat (?len + 1)) buf) (D s ?m)))"
      using calm_trans [OF "1.prems" [of s ?m]] by simp
    then show ?thesis
      using msg by (subst processIncomingData.simps) (simp add: Let_def)
  qed
qed

lemma calm_socketData: "calm c (socketData P chunk c)"
proof -
  have "calm c (snd (processIncomingData (processMessage P) (buffer c @ chunk) c))"
    by (rule calm_loop) (rule calm_processMessage)
  then show ?thesis
    by (simp add: socketData_def onData_def Let_def calm_def)
qed

lemma calm_queryTimeout: "calm c (queryTimeout k c)"
  by (cases "currentQuery c")
     (simp_all add: queryTimeout_def Let_def calm_def currentQueryReject_def obs_simps)

lemma funpow_record_history:
  "history ((record_obs ob ^^ n) c) = history c @ replicate n ob"
  by (induction n arbitrary: c) (simp_all add: record_obs_def funpow_swap1 replicate_append_same)

lemma funpow_record_ready:
  "readyForQuery ((record_obs ob ^^ n) c) = readyForQuery c"
  by (induction n arbitrary: c) (simp_all add: record_obs_def funpow_swap1)

lemma outstanding_append:
  "queryOutstanding (h @ l) = foldl outstandingAfter (queryOutstanding h) l"
  by (simp add: queryOutstanding_def)

lemma foldl_neutral:
  assumes "\<And>b. outstandingAfter b ob = b"
  shows "foldl outstandingAfter b (replicate n ob) = b"
  by (induction n) (simp_all add: assms)

lemma calm_socketClosed: "calm c (socketClosed c)"
proof -
  have n: "outstandingAfter b (Settled ClosePromise ResolvedClose) = b" for b
    by (simp add: outstandingAfter_def)
  show ?thesis
    by (simp add: socketClosed_def calm_def funpow_record_history funpow_record_ready
        outstanding_append foldl_neutral [OF n])
qed

lemma calm_close: "calm c (close c)"
  by (simp add: close_def calm_def outstanding_append outstandingAfter_def record_obs_def
      socketWrite_def)

lemma calm_connect: "calm c (connect c)"
  by (simp add: connect_def calm_def)

lemma inv_query: "inv_ready c \<Longrightarrow> inv_ready (fst (query c sql))"
  by (simp add: query_def Let_def inv_ready_def obs_simps)

lemma inv_step:
  assumes "inv_ready c"
  shows "inv_ready (step P c ev)"
proof (cases "crashed c")
  case True
  with assms show ?thesis by (simp add: step_def)
next
  case False
  have k: "calm c x \<Longrightarrow> inv_ready x" for x
    using assms by (rule calm_inv)
  show ?thesis
  proof (cases ev)
    case CallConnect
    with False show ?thesis by (simp add: step_def assms k calm_connect)
  next
    case (CallQuery sql)
    with False show ?thesis by (simp add: step_def inv_query assms)
  next
    case CallClose
    with False show ?thesis by (simp add: step_def k calm_close)
  next
    case TcpConnected
    have "calm c (socketWrite StartupPacket (c\<lparr>state := ''connected''\<rparr>))"
      by (rule calm_after_update [OF _ _ calm_write]) simp_all
    with False TcpConnected show ?thesis by (simp add: step_def assms k)
  next
    case (SocketData chunk)
    with False show ?thesis by (simp add: step_def assms k calm_socketData)
  next
    case (SocketError e)
    with False show ?thesis by (simp add: step_def assms k calm_emitError)
  next
    case SocketClosed
    with False show ?thesis by (simp add: step_def assms k calm_socketClosed)
  next
    case SocketEnded
    with False show ?thesis by (simp add: step_def assms k calm_field_update)
  next
    case (TimerFired n)
    with False show ?thesis by (simp add: step_def assms k calm_queryTimeout)
  qed
qed

lemma inv_new: "inv_ready (newConnection u p)"
  by (simp add: inv_ready_def newConnection_def outstanding_nil)

lemma inv_run: "inv_ready c \<Longrightarrow> inv_ready (run P c evs)"
  unfolding run_def by (induction evs arbitrary: c) (simp_all add: inv_step)

subsection \<open>The flag readyForQuery\<close>

text \<open>
  Claim C4, as stated, fails at construction and after a failed query: the constructor
  sets \<open>readyForQuery\<close>, and so does the \<open>reject\<close> of the current query, in both cases
  without a ReadyForQuery message in the history.
\<close>

theorem readyForQuery_counterexample:
  "readyForQuery demoConn \<and> \<not> receivedReadyForQuery (history demoConn) \<and>
   readyForQuery demoAfterError \<and> \<not> receivedReadyForQuery (history demoAfterError)"
  by code_simp

text \<open>
  Claim C4, as the code has it. In every state that a new connection reaches,
  \<open>readyForQuery\<close> is true only when no query is outstanding: no Query packet has been
  written yet, or since the last one was written a ReadyForQuery message has been handled
  or the promise of a query has been rejected.
\<close>

theorem readyForQuery_invariant:
  "readyForQuery (run P (newConnection u p) evs) \<longrightarrow>
     \<not> queryOutstanding (history (run P (newConnection u p) evs))"
  using inv_run [OF inv_new, of P u p evs]
  by (auto simp: inv_ready_def)

theorem readyForQuery_invariant_witness:
  "readyForQuery demoAfterError \<and> \<not> queryOutstanding (history demoAfterError)"
proof -
  have r: "readyForQuery demoAfterError"
    by code_simp
  from readyForQuery_invariant [of tablePlatform "''postgres''" "''postgres''"
      "[CallConnect, TcpConnected, CallQuery ''SELECT * FROM nope'', SocketData demoError]"] r
  show ?thesis
    by (simp add: demoAfterError_def demoConn_def)
qed

subsection \<open>The guard of query\<close>

text \<open>
  Claim C9, as stated, fails between the ErrorResponse of a query and its ReadyForQuery:
  the Query has been written, no ReadyForQuery has been handled, and the next call of
  \<open>query\<close> is accepted.
\<close>

theorem query_guard_counterexample:
  "list_ex (wroteQuery ''SELECT * FROM nope'') (history demoAfterError) \<and>
   \<not> receivedReadyForQuery (history demoAfterError) \<and>
   snd (query demoAfterError ''SELECT 2'') = Pending 1"
  by code_simp

text \<open>
  Claim C9, as the code has it. In every state that a new connection reaches and in which
  a query is outstanding (a Query packet has been written and, since then, no ReadyForQuery
  message has been handled and no promise of a query has been rejected), a call of \<open>query\<close>
  returns a promise rejected with \<open>Connection not ready for query\<close> and leaves the whole
  connection, the outstanding query with it, as it was.
\<close>

theorem query_guard:
  "queryOutstanding (history (run P (newConnection u p) evs)) \<longrightarrow>
   query (run P (newConnection u p) evs) sql =
     (run P (newConnection u p) evs, Failed (ErrorMessage ''Connection not ready for query''))"
  using inv_run [OF inv_new, of P u p evs]
  by (simp add: inv_ready_def query_def)

theorem query_guard_witness:
  "queryOutstanding (history demoBusy) \<and>
   query demoBusy ''SELECT 2'' =
     (demoBusy, Failed (ErrorMessage ''Connection not ready for query''))"
proof -
  have o: "queryOutstanding (history demoBusy)"
    by code_simp
  from query_guard [of tablePlatform "''postgres''" "''postgres''"
      "[CallConnect, TcpConnected, CallQuery ''SELECT 1'']" "''SELECT 2''"] o
  show ?thesis
    by (simp add: demoBusy_def demoConn_def)
qed

subsection \<open>Timeouts\<close>

text \<open>
  Claim C3, as stated, fails: after the timer of a query has fired and rejected it with
  \<open>Query timeout\<close>, the next call of \<open>query\<close> is accepted, and the answer of the server
  resolves it.
\<close>

theorem timeout_counterexample:
  "list_ex (rejectedWith 0 ''Query timeout'') (history demoAfterTimeout) \<and>
   snd (query demoAfterTimeout ''SELECT 2'') = Pending 1 \<and>
   list_ex (resolvedQuery 1)
     (history (run tablePlatform demoAfterTimeout
        [CallQuery ''SELECT 2'', SocketData (demoComplete @ demoReady)]))"
  by code_simp

text \<open>
  Claim C3, as the code has it. When the timer of a query fires while a query is current,
  that query is rejected with \<open>Query timeout\<close>, \<open>currentQuery\<close> becomes \<open>null\<close> and
  \<open>readyForQuery\<close> becomes true: on a connection with a socket the next call of \<open>query\<close>
  passes the guard, writes its Query packet and returns a pending promise.
\<close>

theorem timeout_reenables:
  assumes "\<not> crashed c" "k \<in> set (timers c)" "currentQuery c = Some j"
  shows "readyForQuery (step P c (TimerFired k)) \<and>
         currentQuery (step P c (TimerFired k)) = None \<and>
         history (step P c (TimerFired k)) =
           history c @ [Settled (QueryPromise j) (Rejected (ErrorMessage ''Query timeout''))] \<and>
         (socket c \<longrightarrow>
            snd (query (step P c (TimerFired k)) sql) = Pending (length (closures c)) \<and>
            history (fst (query (step P c (TimerFired k)) sql)) =
              history (step P c (TimerFired k)) @ [Wrote (QueryPacket sql)])"
  using assms
  by (simp add: step_def queryTimeout_def Let_def currentQueryReject_def record_obs_def
      query_def socketWrite_def)

theorem timeout_reenables_witness:
  "\<not> crashed demoBusy \<and> 0 \<in> set (timers demoBusy) \<and> currentQuery demoBusy = Some 0 \<and>
   socket demoBusy \<and>
   readyForQuery (step tablePlatform demoBusy (TimerFired 0)) \<and>
   snd (query (step tablePlatform demoBusy (TimerFired 0)) ''SELECT 2'')
     = Pending (length (closures demoBusy))"
proof -
  have h: "\<not> crashed demoBusy" "0 \<in> set (timers demoBusy)" "currentQuery demoBusy = Some 0"
    "socket demoBusy"
    by code_simp+
  from timeout_reenables [OF h(1-3), of tablePlatform "''SELECT 2''"] h
  show ?thesis
    by simp
qed

end
